theory Spec2Isabelle
  imports Complex_Main "HOL-Library.AList"
begin

section \<open>Python values, exceptions and dictionaries\<close>

text \<open>
  The program under study is \<^verbatim>\<open>paper_system_poc.py\<close>: four health probes (database,
  cache, search cluster, graph store), a registry that runs them, a metrics sampler, a
  report builder and a demo entry point. Every call into a third-party client, the
  clock and the file system is an input of the model: a world record holds, for each
  call site of the source, what that call returns or raises when it is reached.

  An exception is its class and the text \<^verbatim>\<open>str(e)\<close> gives. The classes that the source's
  handlers tell apart are kept apart: \<^verbatim>\<open>except Exception\<close> catches every class but
  \<^verbatim>\<open>KeyboardInterrupt\<close> and \<^verbatim>\<open>SystemExit\<close> (which derive from \<^verbatim>\<open>BaseException\<close> only),
  \<^verbatim>\<open>except ImportError\<close> catches \<^verbatim>\<open>ImportError\<close> and its subclass
  \<^verbatim>\<open>ModuleNotFoundError\<close>. \<open>DriverError\<close> stands for the error classes of the client
  libraries, all subclasses of \<^verbatim>\<open>Exception\<close>.

  Numbers of type \<^verbatim>\<open>float\<close> are modelled as reals. Calls to the logger and to
  \<^verbatim>\<open>time.sleep\<close> return and change nothing the program reads; they are left out.
\<close>

datatype exc_class =
    ImportError | ModuleNotFoundError | KeyError | IndexError | TypeError
  | ZeroDivisionError | OSError | DriverError | KeyboardInterrupt | SystemExit

datatype py_exc = Raised exc_class string

fun exc_class_of :: "py_exc \<Rightarrow> exc_class" where
  "exc_class_of (Raised c m) = c"

fun str_exc :: "py_exc \<Rightarrow> string" where
  "str_exc (Raised c m) = m"

definition is_Exception :: "py_exc \<Rightarrow> bool" where
  "is_Exception e = (exc_class_of e \<noteq> KeyboardInterrupt \<and> exc_class_of e \<noteq> SystemExit)"

definition is_ImportError :: "py_exc \<Rightarrow> bool" where
  "is_ImportError e = (exc_class_of e = ImportError \<or> exc_class_of e = ModuleNotFoundError)"

text \<open>
  A \<^verbatim>\<open>datetime\<close> value is its position on the time line (seconds) and the text
  \<^verbatim>\<open>isoformat()\<close> renders for it.
\<close>

record datetime =
  seconds :: real
  isoformat :: string

text \<open>
  The values the program stores in dictionaries and lists. A dictionary is an association
  list in insertion order, as Python's \<^verbatim>\<open>dict\<close> keeps it.
\<close>

datatype pyval =
    PNone
  | PBool bool
  | PInt int
  | PFloat real
  | PStr string
  | PDatetime datetime
  | PList "pyval list"
  | PDict "(string \<times> pyval) list"

type_synonym pydict = "(string \<times> pyval) list"

text \<open>A computation either raises (\<open>Inl\<close>) or returns (\<open>Inr\<close>).\<close>

type_synonym 'a outcome = "py_exc + 'a"

definition then_do :: "'a outcome \<Rightarrow> ('a \<Rightarrow> 'b outcome) \<Rightarrow> 'b outcome" where
  "then_do m f = (case m of Inl e \<Rightarrow> Inl e | Inr x \<Rightarrow> f x)"

text \<open>
  \<^verbatim>\<open>try: body except Exception as e: handler\<close>. An exception that is not an instance of
  \<^verbatim>\<open>Exception\<close> passes the handler by.
\<close>

definition try_except_Exception :: "'a outcome \<Rightarrow> (py_exc \<Rightarrow> 'a outcome) \<Rightarrow> 'a outcome" where
  "try_except_Exception body handler =
     (case body of
        Inr v \<Rightarrow> Inr v
      | Inl e \<Rightarrow> if is_Exception e then handler e else Inl e)"

text \<open>
  \<^verbatim>\<open>d[k]\<close> on a dictionary raises \<^verbatim>\<open>KeyError\<close> for a missing key; the text of a
  \<^verbatim>\<open>KeyError\<close> is the \<^verbatim>\<open>repr\<close> of the key, the key between single quotes.
\<close>

definition quoted :: "string \<Rightarrow> string" where
  "quoted k = CHR 0x27 # k @ [CHR 0x27]"

definition getitem :: "pydict \<Rightarrow> string \<Rightarrow> pyval outcome" where
  "getitem d k =
     (case map_of d k of
        None \<Rightarrow> Inl (Raised KeyError (quoted k))
      | Some v \<Rightarrow> Inr v)"

text \<open>
  \<^verbatim>\<open>row[0]\<close> on what \<^verbatim>\<open>fetchone()\<close> gave: a tuple (its first element, or
  \<^verbatim>\<open>IndexError\<close> when it is empty), \<^verbatim>\<open>None\<close> when the query gave no row, or another
  value that cannot be subscripted.
\<close>

fun first_item :: "pyval \<Rightarrow> pyval outcome" where
  "first_item (PList (x # xs)) = Inr x"
| "first_item (PList []) = Inl (Raised IndexError ''tuple index out of range'')"
| "first_item PNone =
     Inl (Raised TypeError (quoted ''NoneType'' @ '' object is not subscriptable''))"
| "first_item v = Inl (Raised TypeError ''object is not subscriptable'')"

section \<open>The probes\<close>

record SystemHealth =
  component :: string
  status :: string
  response_time_ms :: real
  last_check :: datetime
  details :: pydict

subsection \<open>\<^verbatim>\<open>check_database_health\<close>\<close>

text \<open>
  One field for each call site of the probe: the three readings of \<^verbatim>\<open>time.time()\<close>
  (on entry, after \<^verbatim>\<open>conn.close()\<close>, in the handler), the two of
  \<^verbatim>\<open>datetime.now()\<close>, and the outcome of each client call.
\<close>

record database_world =
  db_time_start :: real
  db_import :: "unit outcome"
  db_connect :: "unit outcome"
  db_cursor :: "unit outcome"
  db_execute :: "unit outcome"
  db_fetchone :: "pyval outcome"
  db_close :: "unit outcome"
  db_time_done :: real
  db_now_done :: datetime
  db_time_except :: real
  db_now_except :: datetime

definition check_database_health_try :: "database_world \<Rightarrow> SystemHealth outcome" where
  "check_database_health_try w =
     then_do (db_import w) (\<lambda>_.
     then_do (db_connect w) (\<lambda>_.
     then_do (db_cursor w) (\<lambda>_.
     then_do (db_execute w) (\<lambda>_.
     then_do (db_fetchone w) (\<lambda>row.
     then_do (first_item row) (\<lambda>count.
     then_do (db_close w) (\<lambda>_.
     Inr \<lparr>component = ''database'',
          status = ''healthy'',
          response_time_ms = (db_time_done w - db_time_start w) * 1000,
          last_check = db_now_done w,
          details = [(''paper_count'', count)]\<rparr>)))))))"

definition check_database_health :: "database_world \<Rightarrow> SystemHealth outcome" where
  "check_database_health w =
     try_except_Exception (check_database_health_try w) (\<lambda>e.
       Inr \<lparr>component = ''database'',
            status = ''unhealthy'',
            response_time_ms = (db_time_except w - db_time_start w) * 1000,
            last_check = db_now_except w,
            details = [(''error'', PStr (str_exc e))]\<rparr>)"

subsection \<open>\<^verbatim>\<open>check_cache_health\<close>\<close>

text \<open>
  \<open>ca_time_key\<close> is the reading that names the test key
  (\<^verbatim>\<open>f"health_check:{int(time.time())}"\<close>); the key only travels to the client calls,
  whose outcomes are inputs here.
\<close>

record cache_world =
  ca_time_start :: real
  ca_import :: "unit outcome"
  ca_client :: "unit outcome"
  ca_ping :: "unit outcome"
  ca_time_key :: real
  ca_setex :: "unit outcome"
  ca_get :: "pyval outcome"
  ca_delete :: "unit outcome"
  ca_time_done :: real
  ca_now_done :: datetime
  ca_time_except :: real
  ca_now_except :: datetime

definition check_cache_health_try :: "cache_world \<Rightarrow> SystemHealth outcome" where
  "check_cache_health_try w =
     then_do (ca_import w) (\<lambda>_.
     then_do (ca_client w) (\<lambda>_.
     then_do (ca_ping w) (\<lambda>_.
     then_do (ca_setex w) (\<lambda>_.
     then_do (ca_get w) (\<lambda>v.
     then_do (ca_delete w) (\<lambda>_.
     Inr \<lparr>component = ''cache'',
          status = ''healthy'',
          response_time_ms = (ca_time_done w - ca_time_start w) * 1000,
          last_check = ca_now_done w,
          details = [(''operation'', PStr ''ping_and_test'')]\<rparr>))))))"

definition check_cache_health :: "cache_world \<Rightarrow> SystemHealth outcome" where
  "check_cache_health w =
     try_except_Exception (check_cache_health_try w) (\<lambda>e.
       Inr \<lparr>component = ''cache'',
            status = ''unhealthy'',
            response_time_ms = (ca_time_except w - ca_time_start w) * 1000,
            last_check = ca_now_except w,
            details = [(''error'', PStr (str_exc e))]\<rparr>)"

subsection \<open>\<^verbatim>\<open>check_search_health\<close>\<close>

text \<open>
  \<^verbatim>\<open>es.ping()\<close> returns a truth value; \<^verbatim>\<open>es.cluster.health()\<close> returns a dictionary.
  The status expression \<^verbatim>\<open>cluster_health['status'] in ['green', 'yellow']\<close> is evaluated
  while the result is built, after the reading \<open>se_time_done\<close> and before
  \<^verbatim>\<open>datetime.now()\<close>; a missing key raises there and lands in the handler.
\<close>

record search_world =
  se_time_start :: real
  se_import :: "unit outcome"
  se_client :: "unit outcome"
  se_ping :: "bool outcome"
  se_cluster_health :: "pydict outcome"
  se_time_done :: real
  se_now_done :: datetime
  se_time_noping :: real
  se_now_noping :: datetime
  se_time_except :: real
  se_now_except :: datetime

definition check_search_health_try :: "search_world \<Rightarrow> SystemHealth outcome" where
  "check_search_health_try w =
     then_do (se_import w) (\<lambda>_.
     then_do (se_client w) (\<lambda>_.
     then_do (se_ping w) (\<lambda>ping.
     if ping then
       then_do (se_cluster_health w) (\<lambda>cluster_health.
       then_do (getitem cluster_health ''status'') (\<lambda>cluster_status.
       Inr \<lparr>component = ''search'',
            status = (if cluster_status \<in> set [PStr ''green'', PStr ''yellow'']
                      then ''healthy'' else ''degraded''),
            response_time_ms = (se_time_done w - se_time_start w) * 1000,
            last_check = se_now_done w,
            details = cluster_health\<rparr>))
     else
       Inr \<lparr>component = ''search'',
            status = ''unhealthy'',
            response_time_ms = (se_time_noping w - se_time_start w) * 1000,
            last_check = se_now_noping w,
            details = [(''error'', PStr ''ping_failed'')]\<rparr>)))"

definition check_search_health :: "search_world \<Rightarrow> SystemHealth outcome" where
  "check_search_health w =
     try_except_Exception (check_search_health_try w) (\<lambda>e.
       Inr \<lparr>component = ''search'',
            status = ''unhealthy'',
            response_time_ms = (se_time_except w - se_time_start w) * 1000,
            last_check = se_now_except w,
            details = [(''error'', PStr (str_exc e))]\<rparr>)"

subsection \<open>\<^verbatim>\<open>check_graph_health\<close>\<close>

text \<open>
  \<open>gr_run\<close> is the query together with the comprehension that reads its records:
  the list \<^verbatim>\<open>components\<close>.
\<close>

record graph_world =
  gr_time_start :: real
  gr_import :: "unit outcome"
  gr_driver :: "unit outcome"
  gr_session :: "unit outcome"
  gr_run :: "pyval list outcome"
  gr_close :: "unit outcome"
  gr_time_done :: real
  gr_now_done :: datetime
  gr_time_except :: real
  gr_now_except :: datetime

definition check_graph_health_try :: "graph_world \<Rightarrow> SystemHealth outcome" where
  "check_graph_health_try w =
     then_do (gr_import w) (\<lambda>_.
     then_do (gr_driver w) (\<lambda>_.
     then_do (gr_session w) (\<lambda>_.
     then_do (gr_run w) (\<lambda>components.
     then_do (gr_close w) (\<lambda>_.
     Inr \<lparr>component = ''graph'',
          status = ''healthy'',
          response_time_ms = (gr_time_done w - gr_time_start w) * 1000,
          last_check = gr_now_done w,
          details = [(''components'', PList components)]\<rparr>)))))"

definition check_graph_health :: "graph_world \<Rightarrow> SystemHealth outcome" where
  "check_graph_health w =
     try_except_Exception (check_graph_health_try w) (\<lambda>e.
       Inr \<lparr>component = ''graph'',
            status = ''unhealthy'',
            response_time_ms = (gr_time_except w - gr_time_start w) * 1000,
            last_check = gr_now_except w,
            details = [(''error'', PStr (str_exc e))]\<rparr>)"

section \<open>The object's state and the registry\<close>

text \<open>
  The fields \<^verbatim>\<open>__init__\<close> sets (the logger apart: logging is not modelled, a log call
  returns and changes nothing the program reads). \<^verbatim>\<open>health_status\<close> is the dictionary of
  the last run, in insertion order.
\<close>

record poc_state =
  health_status :: "(string \<times> SystemHealth) list"
  metrics :: pydict
  start_time :: datetime

definition init :: "datetime \<Rightarrow> poc_state" where
  "init now = \<lparr>health_status = [], metrics = [], start_time = now\<rparr>"

text \<open>
  \<open>host_world\<close>: the import of \<^verbatim>\<open>psutil\<close>, the three readings of \<^verbatim>\<open>datetime.now()\<close>
  in \<^verbatim>\<open>collect_system_metrics\<close> (one in the early return, two in the dictionary) and
  the three samples.
\<close>

record host_world =
  ps_import :: "unit outcome"
  ps_now_skipped :: datetime
  ps_now_timestamp :: datetime
  ps_now_uptime :: datetime
  ps_cpu_percent :: "real outcome"
  ps_memory_percent :: "real outcome"
  ps_disk_percent :: "real outcome"

record world =
  database :: database_world
  cache :: cache_world
  search :: search_world
  graph :: graph_world
  host :: host_world
  report_now :: datetime
  demo_now_start :: datetime
  demo_now_end :: datetime
  demo_open :: "unit outcome"
  demo_json_dump :: "unit outcome"

text \<open>
  \<^verbatim>\<open>run_health_checks\<close>: the dictionary display calls the four probes in the order it
  is written, with no handler around them, stores the dictionary in the state and
  returns it.
\<close>

definition run_health_checks ::
  "world \<Rightarrow> poc_state \<Rightarrow> ((string \<times> SystemHealth) list \<times> poc_state) outcome" where
  "run_health_checks w s =
     then_do (check_database_health (database w)) (\<lambda>db.
     then_do (check_cache_health (cache w)) (\<lambda>ca.
     then_do (check_search_health (search w)) (\<lambda>se.
     then_do (check_graph_health (graph w)) (\<lambda>gr.
     let health_checks =
           [(''database'', db), (''cache'', ca), (''search'', se), (''graph'', gr)]
     in Inr (health_checks, s\<lparr>health_status := health_checks\<rparr>)))))"

section \<open>Metrics\<close>

text \<open>
  \<^verbatim>\<open>if name in self.health_status: metrics[name + '_response_ms'] = ...\<close>; the
  assignment replaces the value of a key in place and appends a new key.
\<close>

definition copy_response_ms ::
  "(string \<times> SystemHealth) list \<Rightarrow> string \<Rightarrow> pydict \<Rightarrow> pydict" where
  "copy_response_ms hs name m =
     (case map_of hs name of
        None \<Rightarrow> m
      | Some h \<Rightarrow> AList.update (name @ ''_response_ms'') (PFloat (response_time_ms h)) m)"

definition collect_system_metrics ::
  "host_world \<Rightarrow> poc_state \<Rightarrow> (pydict \<times> poc_state) outcome" where
  "collect_system_metrics w s =
     (case ps_import w of
        Inl e \<Rightarrow>
          if is_ImportError e
          then Inr ([(''timestamp'', PStr (isoformat (ps_now_skipped w)))], s)
          else Inl e
      | Inr _ \<Rightarrow>
          then_do (ps_cpu_percent w) (\<lambda>cpu.
          then_do (ps_memory_percent w) (\<lambda>mem.
          then_do (ps_disk_percent w) (\<lambda>disk.
          let m0 = [(''timestamp'', PStr (isoformat (ps_now_timestamp w))),
                    (''uptime_seconds'',
                       PFloat (seconds (ps_now_uptime w) - seconds (start_time s))),
                    (''cpu_percent'', PFloat cpu),
                    (''memory_percent'', PFloat mem),
                    (''disk_percent'', PFloat disk)];
              m1 = copy_response_ms (health_status s) ''database'' m0;
              m2 = copy_response_ms (health_status s) ''cache'' m1;
              m3 = copy_response_ms (health_status s) ''search'' m2;
              m4 = copy_response_ms (health_status s) ''graph'' m3
          in Inr (m4, s\<lparr>metrics := m4\<rparr>)))))"

section \<open>The report\<close>

text \<open>The three-way rule of \<^verbatim>\<open>generate_system_report\<close> over the list of statuses.\<close>

definition overall_status_of :: "string list \<Rightarrow> string" where
  "overall_status_of statuses =
     (if list_all (\<lambda>status. status = ''healthy'') statuses then ''healthy''
      else if list_ex (\<lambda>status. status = ''unhealthy'') statuses then ''degraded''
      else ''healthy'')"

text \<open>\<^verbatim>\<open>sum(1 for s in statuses if s == x)\<close>.\<close>

definition count_status :: "string \<Rightarrow> string list \<Rightarrow> int" where
  "count_status x statuses = sum_list (map (\<lambda>s. 1) (filter (\<lambda>s. s = x) statuses))"

definition component_summary_of :: "string list \<Rightarrow> pydict" where
  "component_summary_of statuses =
     [(''healthy'', PInt (count_status ''healthy'' statuses)),
      (''degraded'', PInt (count_status ''degraded'' statuses)),
      (''unhealthy'', PInt (count_status ''unhealthy'' statuses)),
      (''total'', PInt (int (length statuses)))]"

text \<open>\<^verbatim>\<open>dataclasses.asdict\<close> on a \<^verbatim>\<open>SystemHealth\<close>.\<close>

definition asdict :: "SystemHealth \<Rightarrow> pydict" where
  "asdict h =
     [(''component'', PStr (component h)),
      (''status'', PStr (status h)),
      (''response_time_ms'', PFloat (response_time_ms h)),
      (''last_check'', PDatetime (last_check h)),
      (''details'', PDict (details h))]"

text \<open>\<^verbatim>\<open>d.get(k, default)\<close>.\<close>

definition dict_get :: "pydict \<Rightarrow> string \<Rightarrow> pyval \<Rightarrow> pyval" where
  "dict_get d k dflt = (case map_of d k of None \<Rightarrow> dflt | Some v \<Rightarrow> v)"

text \<open>
  The part of \<^verbatim>\<open>generate_system_report\<close> after its two calls: the report as a function
  of the local variables \<^verbatim>\<open>health_status\<close> and \<^verbatim>\<open>system_metrics\<close> and of the reading of
  \<^verbatim>\<open>datetime.now()\<close>.
\<close>

definition system_report_of ::
  "(string \<times> SystemHealth) list \<Rightarrow> pydict \<Rightarrow> datetime \<Rightarrow> pydict" where
  "system_report_of health system_metrics now =
     (let statuses = map (\<lambda>(k, health). status health) health
      in [(''overall_status'', PStr (overall_status_of statuses)),
          (''timestamp'', PStr (isoformat now)),
          (''uptime_seconds'', dict_get system_metrics ''uptime_seconds'' (PInt 0)),
          (''health_checks'', PDict (map (\<lambda>(k, v). (k, PDict (asdict v))) health)),
          (''system_metrics'', PDict system_metrics),
          (''component_summary'', PDict (component_summary_of statuses))])"

definition generate_system_report :: "world \<Rightarrow> poc_state \<Rightarrow> (pydict \<times> poc_state) outcome" where
  "generate_system_report w s =
     then_do (run_health_checks w s) (\<lambda>(health, s1).
     then_do (collect_system_metrics (host w) s1) (\<lambda>(system_metrics, s2).
     Inr (system_report_of health system_metrics (report_now w), s2)))"

section \<open>The demos\<close>

text \<open>\<^verbatim>\<open>a / b\<close> on numbers.\<close>

definition truediv :: "real \<Rightarrow> real \<Rightarrow> real outcome" where
  "truediv a b = (if b = 0 then Inl (Raised ZeroDivisionError ''division by zero'') else Inr (a / b))"

definition demo_papers :: "pydict list" where
  "demo_papers =
     [[(''id'', PStr ''demo_paper_001''),
       (''title'', PStr ''Machine Learning Applications in Scientific Research''),
       (''abstract'', PStr ''This paper explores various machine learning applications in scientific research, focusing on data analysis and pattern recognition techniques.''),
       (''authors'', PList [PStr ''Dr. Jane Smith'', PStr ''Prof. John Doe'']),
       (''year'', PInt 2024),
       (''journal'', PStr ''Journal of AI Research''),
       (''doi'', PStr ''10.1000/demo.001''),
       (''keywords'', PList [PStr ''machine learning'', PStr ''scientific research'', PStr ''data analysis'']),
       (''citation_count'', PInt 25)],
      [(''id'', PStr ''demo_paper_002''),
       (''title'', PStr ''Advanced Natural Language Processing for Academic Literature''),
       (''abstract'', PStr ''We present advanced NLP techniques for processing academic literature, including entity extraction and relationship mapping.''),
       (''authors'', PList [PStr ''Dr. Alice Brown'', PStr ''Dr. Bob Wilson'']),
       (''year'', PInt 2024),
       (''journal'', PStr ''Computational Linguistics Review''),
       (''doi'', PStr ''10.1000/demo.002''),
       (''keywords'', PList [PStr ''natural language processing'', PStr ''academic literature'', PStr ''text mining'']),
       (''citation_count'', PInt 18)]]"

text \<open>
  The handler of the loop in \<^verbatim>\<open>demo_paper_processing\<close>: it formats
  \<^verbatim>\<open>paper['id']\<close> into its log line, then the loop goes on (\<open>continue\<close>) with one more
  failure.
\<close>

definition paper_failed :: "py_exc \<Rightarrow> pydict \<Rightarrow> 'a outcome \<Rightarrow> 'a outcome" where
  "paper_failed e paper continue =
     (if is_Exception e then then_do (getitem paper ''id'') (\<lambda>_. continue) else Inl e)"

text \<open>
  The loop, with its two counters. The body reads \<^verbatim>\<open>paper['title']\<close> for the first
  log line, sleeps, adds one to \<^verbatim>\<open>processed_count\<close> and reads \<^verbatim>\<open>paper['id']\<close> for the
  second log line; the sleep and the log calls return.
\<close>

fun process_papers :: "pydict list \<Rightarrow> int \<Rightarrow> int \<Rightarrow> (int \<times> int) outcome" where
  "process_papers [] processed_count failed_count = Inr (processed_count, failed_count)"
| "process_papers (paper # rest) processed_count failed_count =
     (case getitem paper ''title'' of
        Inl e \<Rightarrow>
          paper_failed e paper (process_papers rest processed_count (failed_count + 1))
      | Inr title \<Rightarrow>
          (case getitem paper ''id'' of
             Inl e \<Rightarrow>
               paper_failed e paper
                 (process_papers rest (processed_count + 1) (failed_count + 1))
           | Inr paper_id \<Rightarrow> process_papers rest (processed_count + 1) failed_count))"

definition demo_paper_processing :: "pydict outcome" where
  "demo_paper_processing =
     then_do (process_papers demo_papers 0 0) (\<lambda>(processed_count, failed_count).
     then_do (truediv (of_int processed_count) (of_nat (length demo_papers))) (\<lambda>q.
     Inr [(''total_papers'', PInt (int (length demo_papers))),
          (''processed'', PInt processed_count),
          (''failed'', PInt failed_count),
          (''success_rate'', PFloat (q * 100))]))"

definition demo_queries :: "string list" where
  "demo_queries =
     [''machine learning'',
      ''natural language processing'',
      ''data analysis techniques'',
      ''scientific research methods'']"

definition mock_results :: "string \<Rightarrow> pyval list" where
  "mock_results query =
     [PDict [(''title'', PStr (''Paper about '' @ query)), (''relevance'', PFloat 0.95)],
      PDict [(''title'', PStr (''Advanced '' @ query @ '' techniques'')), (''relevance'', PFloat 0.87)],
      PDict [(''title'', PStr (query @ '' in practice'')), (''relevance'', PFloat 0.73)]]"

fun run_queries ::
  "string list \<Rightarrow> (string \<times> pyval list) list \<Rightarrow> (string \<times> pyval list) list" where
  "run_queries [] search_results = search_results"
| "run_queries (query # rest) search_results =
     run_queries rest (AList.update query (mock_results query) search_results)"

definition demo_search_functionality :: "pydict outcome" where
  "demo_search_functionality =
     (let search_results = run_queries demo_queries [];
          total = sum_list (map (\<lambda>(query, results). int (length results)) search_results)
      in then_do (truediv (of_int total) (of_nat (length demo_queries))) (\<lambda>average.
         Inr [(''queries_processed'', PInt (int (length demo_queries))),
              (''total_results'', PInt total),
              (''average_results_per_query'', PFloat average),
              (''sample_results'',
                 PDict (map (\<lambda>(query, results). (query, PList results)) search_results))]))"

text \<open>
  \<^verbatim>\<open>run_comprehensive_demo\<close>. \<open>demo_open\<close> and \<open>demo_json_dump\<close> are the outcomes of
  opening the report file and of writing it; what is written is the dictionary the
  function returns.
\<close>

definition run_comprehensive_demo :: "world \<Rightarrow> poc_state \<Rightarrow> (pydict \<times> poc_state) outcome" where
  "run_comprehensive_demo w s =
     (let demo_start = demo_now_start w
      in then_do (generate_system_report w s) (\<lambda>(system_report, s1).
         then_do demo_paper_processing (\<lambda>processing_demo.
         then_do demo_search_functionality (\<lambda>search_demo.
         let demo_duration = seconds (demo_now_end w) - seconds demo_start
         in then_do (getitem system_report ''overall_status'') (\<lambda>overall_health.
            then_do (getitem processing_demo ''processed'') (\<lambda>papers_processed.
            then_do (getitem search_demo ''queries_processed'') (\<lambda>search_queries.
            let comprehensive_report =
                  [(''demo_info'',
                      PDict [(''start_time'', PStr (isoformat demo_start)),
                             (''duration_seconds'', PFloat demo_duration),
                             (''status'', PStr ''completed'')]),
                   (''system_health'', PDict system_report),
                   (''paper_processing'', PDict processing_demo),
                   (''search_functionality'', PDict search_demo),
                   (''summary'',
                      PDict [(''overall_health'', overall_health),
                             (''papers_processed'', papers_processed),
                             (''search_queries'', search_queries),
                             (''demo_success'', PBool True)])]
            in then_do (demo_open w) (\<lambda>_.
               then_do (demo_json_dump w) (\<lambda>_.
               Inr (comprehensive_report, s1))))))))))"

section \<open>Example worlds\<close>

text \<open>
  A world in which every dependency answers, and the readings of one run. The theorems
  below are instantiated at this world and at variants of it in which one call fails.
\<close>

definition example_time :: datetime where
  "example_time = \<lparr>seconds = 1700000000, isoformat = ''2023-11-14T22:13:20''\<rparr>"

definition example_database :: database_world where
  "example_database =
     \<lparr>db_time_start = 100, db_import = Inr (), db_connect = Inr (), db_cursor = Inr (),
      db_execute = Inr (), db_fetchone = Inr (PList [PInt 42]), db_close = Inr (),
      db_time_done = 100.25, db_now_done = example_time,
      db_time_except = 100.5, db_now_except = example_time\<rparr>"

definition example_cache :: cache_world where
  "example_cache =
     \<lparr>ca_time_start = 101, ca_import = Inr (), ca_client = Inr (), ca_ping = Inr (),
      ca_time_key = 101.125, ca_setex = Inr (), ca_get = Inr (PStr ''test_value''),
      ca_delete = Inr (), ca_time_done = 101.25, ca_now_done = example_time,
      ca_time_except = 101.5, ca_now_except = example_time\<rparr>"

definition example_search :: search_world where
  "example_search =
     \<lparr>se_time_start = 102, se_import = Inr (), se_client = Inr (), se_ping = Inr True,
      se_cluster_health = Inr [(''cluster_name'', PStr ''paperly''), (''status'', PStr ''green'')],
      se_time_done = 102.25, se_now_done = example_time,
      se_time_noping = 102.5, se_now_noping = example_time,
      se_time_except = 102.75, se_now_except = example_time\<rparr>"

definition example_graph :: graph_world where
  "example_graph =
     \<lparr>gr_time_start = 103, gr_import = Inr (), gr_driver = Inr (), gr_session = Inr (),
      gr_run = Inr [PDict [(''name'', PStr ''Neo4j Kernel''), (''versions'', PList [PStr ''5.0''])]],
      gr_close = Inr (), gr_time_done = 103.25, gr_now_done = example_time,
      gr_time_except = 103.5, gr_now_except = example_time\<rparr>"

definition example_host :: host_world where
  "example_host =
     \<lparr>ps_import = Inr (), ps_now_skipped = example_time, ps_now_timestamp = example_time,
      ps_now_uptime = example_time, ps_cpu_percent = Inr 12.5, ps_memory_percent = Inr 40,
      ps_disk_percent = Inr 55\<rparr>"

definition example_world :: world where
  "example_world =
     \<lparr>database = example_database, cache = example_cache, search = example_search,
      graph = example_graph, host = example_host, report_now = example_time,
      demo_now_start = example_time, demo_now_end = example_time,
      demo_open = Inr (), demo_json_dump = Inr ()\<rparr>"

text \<open>Each dependency fails with an error of its client library.\<close>

definition example_database_down :: database_world where
  "example_database_down =
     example_database\<lparr>db_connect := Inl (Raised DriverError ''connection refused'')\<rparr>"

definition example_cache_down :: cache_world where
  "example_cache_down = example_cache\<lparr>ca_ping := Inl (Raised DriverError ''Connection refused'')\<rparr>"

definition example_search_down :: search_world where
  "example_search_down =
     example_search\<lparr>se_cluster_health := Inl (Raised DriverError ''Connection timed out'')\<rparr>"

definition example_graph_down :: graph_world where
  "example_graph_down =
     example_graph\<lparr>gr_session := Inl (Raised DriverError ''Unable to retrieve routing information'')\<rparr>"

definition example_world_down :: world where
  "example_world_down =
     example_world\<lparr>database := example_database_down, cache := example_cache_down,
       search := example_search_down, graph := example_graph_down\<rparr>"

text \<open>The database client raises an error whose text is empty.\<close>

definition example_database_silent :: database_world where
  "example_database_silent = example_database\<lparr>db_connect := Inl (Raised DriverError [])\<rparr>"

text \<open>
  A call is cut short by \<^verbatim>\<open>KeyboardInterrupt\<close> or \<^verbatim>\<open>SystemExit\<close>, which are not
  instances of \<^verbatim>\<open>Exception\<close>.
\<close>

definition example_database_interrupted :: database_world where
  "example_database_interrupted =
     example_database\<lparr>db_connect := Inl (Raised KeyboardInterrupt [])\<rparr>"

definition example_world_interrupted :: world where
  "example_world_interrupted = example_world\<lparr>database := example_database_interrupted\<rparr>"

definition example_cache_exit :: cache_world where
  "example_cache_exit = example_cache\<lparr>ca_ping := Inl (Raised SystemExit [])\<rparr>"

definition example_search_interrupted :: search_world where
  "example_search_interrupted = example_search\<lparr>se_ping := Inl (Raised KeyboardInterrupt [])\<rparr>"

definition example_graph_interrupted :: graph_world where
  "example_graph_interrupted = example_graph\<lparr>gr_run := Inl (Raised KeyboardInterrupt [])\<rparr>"

text \<open>\<^verbatim>\<open>psutil\<close> is not installed.\<close>

definition example_host_no_psutil :: host_world where
  "example_host_no_psutil =
     example_host\<lparr>ps_import :=
       Inl (Raised ModuleNotFoundError (''No module named '' @ quoted ''psutil''))\<rparr>"

text \<open>The cluster reports red; the ping returns false.\<close>

definition example_search_red :: search_world where
  "example_search_red =
     example_search\<lparr>se_cluster_health :=
       Inr [(''cluster_name'', PStr ''paperly''), (''status'', PStr ''red'')]\<rparr>"

definition example_search_no_ping :: search_world where
  "example_search_no_ping = example_search\<lparr>se_ping := Inr False\<rparr>"

text \<open>
  The system clock is set back while the database probe runs: the reading after
  \<^verbatim>\<open>conn.close()\<close> is lower than the reading on entry.
\<close>

definition example_database_clock_back :: database_world where
  "example_database_clock_back = example_database\<lparr>db_time_done := 99\<rparr>"

section \<open>Sequencing and handlers\<close>

lemma then_do_Inl [simp]: "then_do (Inl e) f = Inl e"
  by (simp add: then_do_def)

lemma then_do_Inr [simp]: "then_do (Inr x) f = f x"
  by (simp add: then_do_def)

lemma then_do_eq_Inr: "then_do m f = Inr y \<longleftrightarrow> (\<exists>x. m = Inr x \<and> f x = Inr y)"
  by (cases m) simp_all

lemma then_do_eq_Inl: "then_do m f = Inl e \<longleftrightarrow> m = Inl e \<or> (\<exists>x. m = Inr x \<and> f x = Inl e)"
  by (cases m) simp_all

lemma try_except_Inr [simp]: "try_except_Exception (Inr v) handler = Inr v"
  by (simp add: try_except_Exception_def)

lemma try_except_caught:
  "is_Exception e \<Longrightarrow> try_except_Exception (Inl e) handler = handler e"
  by (simp add: try_except_Exception_def)

lemma try_except_passed:
  "\<not> is_Exception e \<Longrightarrow> try_except_Exception (Inl e) handler = Inl e"
  by (simp add: try_except_Exception_def)

lemma try_except_returns:
  "try_except_Exception body handler = Inr h \<longleftrightarrow>
     body = Inr h \<or> (\<exists>e. body = Inl e \<and> is_Exception e \<and> handler e = Inr h)"
  by (cases body) (simp_all add: try_except_Exception_def)

lemma try_except_raises:
  "try_except_Exception body handler = Inl e' \<longleftrightarrow>
     (\<exists>e. body = Inl e \<and> (if is_Exception e then handler e = Inl e' else e = e'))"
  by (cases body) (auto simp add: try_except_Exception_def)

lemma getitem_Cons [simp]:
  "getitem ((k, v) # d) k' = (if k = k' then Inr v else getitem d k')"
  by (simp add: getitem_def)

lemma getitem_Nil [simp]: "getitem [] k = Inl (Raised KeyError (quoted k))"
  by (simp add: getitem_def)

section \<open>What each probe returns\<close>

lemma database_try_returns:
  "check_database_health_try w = Inr h \<Longrightarrow>
     component h = ''database'' \<and> status h = ''healthy'' \<and>
     response_time_ms h = (db_time_done w - db_time_start w) * 1000"
  by (auto simp add: check_database_health_try_def then_do_eq_Inr)

lemma cache_try_returns:
  "check_cache_health_try w = Inr h \<Longrightarrow>
     component h = ''cache'' \<and> status h = ''healthy'' \<and>
     response_time_ms h = (ca_time_done w - ca_time_start w) * 1000"
  by (auto simp add: check_cache_health_try_def then_do_eq_Inr)

lemma search_try_returns:
  "check_search_health_try w = Inr h \<Longrightarrow>
     component h = ''search'' \<and>
     (status h \<in> {''healthy'', ''degraded''} \<and>
        response_time_ms h = (se_time_done w - se_time_start w) * 1000 \<or>
      status h = ''unhealthy'' \<and>
        response_time_ms h = (se_time_noping w - se_time_start w) * 1000)"
  by (auto simp add: check_search_health_try_def then_do_eq_Inr split: if_splits)

lemma graph_try_returns:
  "check_graph_health_try w = Inr h \<Longrightarrow>
     component h = ''graph'' \<and> status h = ''healthy'' \<and>
     response_time_ms h = (gr_time_done w - gr_time_start w) * 1000"
  by (auto simp add: check_graph_health_try_def then_do_eq_Inr)

lemma database_caught:
  "check_database_health_try w = Inl e \<Longrightarrow> is_Exception e \<Longrightarrow>
     check_database_health w =
       Inr \<lparr>component = ''database'', status = ''unhealthy'',
            response_time_ms = (db_time_except w - db_time_start w) * 1000,
            last_check = db_now_except w,
            details = [(''error'', PStr (str_exc e))]\<rparr>"
  by (simp add: check_database_health_def try_except_caught)

lemma cache_caught:
  "check_cache_health_try w = Inl e \<Longrightarrow> is_Exception e \<Longrightarrow>
     check_cache_health w =
       Inr \<lparr>component = ''cache'', status = ''unhealthy'',
            response_time_ms = (ca_time_except w - ca_time_start w) * 1000,
            last_check = ca_now_except w,
            details = [(''error'', PStr (str_exc e))]\<rparr>"
  by (simp add: check_cache_health_def try_except_caught)

lemma search_caught:
  "check_search_health_try w = Inl e \<Longrightarrow> is_Exception e \<Longrightarrow>
     check_search_health w =
       Inr \<lparr>component = ''search'', status = ''unhealthy'',
            response_time_ms = (se_time_except w - se_time_start w) * 1000,
            last_check = se_now_except w,
            details = [(''error'', PStr (str_exc e))]\<rparr>"
  by (simp add: check_search_health_def try_except_caught)

lemma graph_caught:
  "check_graph_health_try w = Inl e \<Longrightarrow> is_Exception e \<Longrightarrow>
     check_graph_health w =
       Inr \<lparr>component = ''graph'', status = ''unhealthy'',
            response_time_ms = (gr_time_except w - gr_time_start w) * 1000,
            last_check = gr_now_except w,
            details = [(''error'', PStr (str_exc e))]\<rparr>"
  by (simp add: check_graph_health_def try_except_caught)

lemma database_passed:
  "check_database_health w = Inl e \<longleftrightarrow> check_database_health_try w = Inl e \<and> \<not> is_Exception e"
  by (auto simp add: check_database_health_def try_except_raises split: if_splits)

lemma cache_passed:
  "check_cache_health w = Inl e \<longleftrightarrow> check_cache_health_try w = Inl e \<and> \<not> is_Exception e"
  by (auto simp add: check_cache_health_def try_except_raises split: if_splits)

lemma search_passed:
  "check_search_health w = Inl e \<longleftrightarrow> check_search_health_try w = Inl e \<and> \<not> is_Exception e"
  by (auto simp add: check_search_health_def try_except_raises split: if_splits)

lemma graph_passed:
  "check_graph_health w = Inl e \<longleftrightarrow> check_graph_health_try w = Inl e \<and> \<not> is_Exception e"
  by (auto simp add: check_graph_health_def try_except_raises split: if_splits)

lemma database_returns:
  "check_database_health w = Inr h \<Longrightarrow>
     component h = ''database'' \<and> status h \<in> {''healthy'', ''unhealthy''}"
  by (auto simp add: check_database_health_def try_except_returns dest: database_try_returns)

lemma cache_returns:
  "check_cache_health w = Inr h \<Longrightarrow>
     component h = ''cache'' \<and> status h \<in> {''healthy'', ''unhealthy''}"
  by (auto simp add: check_cache_health_def try_except_returns dest: cache_try_returns)

lemma search_returns:
  "check_search_health w = Inr h \<Longrightarrow>
     component h = ''search'' \<and> status h \<in> {''healthy'', ''degraded'', ''unhealthy''}"
  by (auto simp add: check_search_health_def try_except_returns dest: search_try_returns)

lemma graph_returns:
  "check_graph_health w = Inr h \<Longrightarrow>
     component h = ''graph'' \<and> status h \<in> {''healthy'', ''unhealthy''}"
  by (auto simp add: check_graph_health_def try_except_returns dest: graph_try_returns)

lemma run_health_checks_returns:
  "run_health_checks w s = Inr (hs, s') \<longleftrightarrow>
     (\<exists>db ca se gr.
        check_database_health (database w) = Inr db \<and>
        check_cache_health (cache w) = Inr ca \<and>
        check_search_health (search w) = Inr se \<and>
        check_graph_health (graph w) = Inr gr \<and>
        hs = [(''database'', db), (''cache'', ca), (''search'', se), (''graph'', gr)] \<and>
        s' = s\<lparr>health_status := hs\<rparr>)"
  by (auto simp add: run_health_checks_def then_do_eq_Inr Let_def)

section \<open>The report\<close>

lemma count_status_sum_results:
  "\<forall>(k, r) \<in> set health.
      status r = ''healthy'' \<or> status r = ''degraded'' \<or> status r = ''unhealthy'' \<Longrightarrow>
   count_status ''healthy'' (map (\<lambda>(k, r). status r) health) +
     count_status ''degraded'' (map (\<lambda>(k, r). status r) health) +
     count_status ''unhealthy'' (map (\<lambda>(k, r). status r) health) = int (length health)"
  by (induction health) (auto simp add: count_status_def)

lemma count_status_of_results:
  "count_status x (map (\<lambda>(k, r). status r) health) =
     int (length (filter (\<lambda>(k, r). status r = x) health))"
  by (induction health) (auto simp add: count_status_def)

lemma run_health_checks_statuses:
  "run_health_checks w s = Inr (hs, s') \<Longrightarrow>
     \<forall>(k, h) \<in> set hs. status h = ''healthy'' \<or> status h = ''degraded'' \<or> status h = ''unhealthy''"
  by (auto simp add: run_health_checks_returns
      dest: database_returns cache_returns search_returns graph_returns)

lemma generate_system_report_returns:
  "generate_system_report w s = Inr (report, s') \<longleftrightarrow>
     (\<exists>health s1 system_metrics.
        run_health_checks w s = Inr (health, s1) \<and>
        collect_system_metrics (host w) s1 = Inr (system_metrics, s') \<and>
        report = system_report_of health system_metrics (report_now w))"
  by (auto simp add: generate_system_report_def then_do_eq_Inr)

lemma system_report_summary:
  "getitem (system_report_of health system_metrics now) ''component_summary'' =
     Inr (PDict (component_summary_of (map (\<lambda>(k, r). status r) health)))"
  by (simp add: system_report_of_def Let_def)

lemma system_report_health_checks:
  "getitem (system_report_of health system_metrics now) ''health_checks'' =
     Inr (PDict (map (\<lambda>(k, v). (k, PDict (asdict v))) health))"
  by (simp add: system_report_of_def Let_def)

lemma component_summary_fields:
  "getitem (component_summary_of statuses) ''healthy'' = Inr (PInt (count_status ''healthy'' statuses))"
  "getitem (component_summary_of statuses) ''degraded'' = Inr (PInt (count_status ''degraded'' statuses))"
  "getitem (component_summary_of statuses) ''unhealthy'' = Inr (PInt (count_status ''unhealthy'' statuses))"
  "getitem (component_summary_of statuses) ''total'' = Inr (PInt (int (length statuses)))"
  by (simp_all add: component_summary_of_def)

section \<open>The example world\<close>

lemma example_database_result:
  "check_database_health example_database =
     Inr \<lparr>component = ''database'', status = ''healthy'', response_time_ms = 250,
          last_check = example_time, details = [(''paper_count'', PInt 42)]\<rparr>"
  by (simp add: check_database_health_def check_database_health_try_def example_database_def)

lemma example_cache_result:
  "check_cache_health example_cache =
     Inr \<lparr>component = ''cache'', status = ''healthy'', response_time_ms = 250,
          last_check = example_time, details = [(''operation'', PStr ''ping_and_test'')]\<rparr>"
  by (simp add: check_cache_health_def check_cache_health_try_def example_cache_def)

lemma example_search_result:
  "check_search_health example_search =
     Inr \<lparr>component = ''search'', status = ''healthy'', response_time_ms = 250,
          last_check = example_time,
          details = [(''cluster_name'', PStr ''paperly''), (''status'', PStr ''green'')]\<rparr>"
  by (simp add: check_search_health_def check_search_health_try_def example_search_def)

lemma example_graph_result:
  "check_graph_health example_graph =
     Inr \<lparr>component = ''graph'', status = ''healthy'', response_time_ms = 250,
          last_check = example_time,
          details = [(''components'',
            PList [PDict [(''name'', PStr ''Neo4j Kernel''), (''versions'', PList [PStr ''5.0''])]])]\<rparr>"
  by (simp add: check_graph_health_def check_graph_health_try_def example_graph_def)

lemma example_world_fields:
  "database example_world = example_database"
  "cache example_world = example_cache"
  "search example_world = example_search"
  "graph example_world = example_graph"
  "host example_world = example_host"
  "demo_open example_world = Inr ()"
  "demo_json_dump example_world = Inr ()"
  by (simp_all add: example_world_def)

lemma example_run_returns: "\<exists>hs s'. run_health_checks example_world s = Inr (hs, s')"
  by (simp add: run_health_checks_returns example_world_fields example_database_result
      example_cache_result example_search_result example_graph_result)

lemma example_metrics_returns: "\<exists>m s'. collect_system_metrics example_host s = Inr (m, s')"
  by (simp add: collect_system_metrics_def example_host_def Let_def)

lemma example_report_returns: "\<exists>report s'. generate_system_report example_world s = Inr (report, s')"
proof -
  obtain hs s1 where "run_health_checks example_world s = Inr (hs, s1)"
    using example_run_returns by blast
  moreover obtain m s2 where "collect_system_metrics example_host s1 = Inr (m, s2)"
    using example_metrics_returns by blast
  ultimately show ?thesis
    by (simp add: generate_system_report_returns example_world_fields)
qed

section \<open>Further facts about the registry, the metrics and the demos\<close>

lemma is_Exception_simps [simp]:
  "is_Exception (Raised c m) \<longleftrightarrow> c \<noteq> KeyboardInterrupt \<and> c \<noteq> SystemExit"
  by (simp add: is_Exception_def)

lemma example_database_down_try:
  "check_database_health_try example_database_down = Inl (Raised DriverError ''connection refused'')"
  by (simp add: check_database_health_try_def example_database_down_def example_database_def)

lemma example_cache_down_try:
  "check_cache_health_try example_cache_down = Inl (Raised DriverError ''Connection refused'')"
  by (simp add: check_cache_health_try_def example_cache_down_def example_cache_def)

lemma example_search_down_try:
  "check_search_health_try example_search_down = Inl (Raised DriverError ''Connection timed out'')"
  by (simp add: check_search_health_try_def example_search_down_def example_search_def)

lemma example_graph_down_try:
  "check_graph_health_try example_graph_down =
     Inl (Raised DriverError ''Unable to retrieve routing information'')"
  by (simp add: check_graph_health_try_def example_graph_down_def example_graph_def)

lemma example_world_down_fields:
  "database example_world_down = example_database_down"
  "cache example_world_down = example_cache_down"
  "search example_world_down = example_search_down"
  "graph example_world_down = example_graph_down"
  by (simp_all add: example_world_down_def)

lemma run_health_checks_total:
  assumes "\<forall>e. check_database_health_try (database w) = Inl e \<longrightarrow> is_Exception e"
    and "\<forall>e. check_cache_health_try (cache w) = Inl e \<longrightarrow> is_Exception e"
    and "\<forall>e. check_search_health_try (search w) = Inl e \<longrightarrow> is_Exception e"
    and "\<forall>e. check_graph_health_try (graph w) = Inl e \<longrightarrow> is_Exception e"
  shows "\<exists>hs s'. run_health_checks w s = Inr (hs, s')"
proof -
  obtain db where "check_database_health (database w) = Inr db"
    using assms(1) database_passed [of "database w"]
    by (cases "check_database_health (database w)") auto
  moreover obtain ca where "check_cache_health (cache w) = Inr ca"
    using assms(2) cache_passed [of "cache w"]
    by (cases "check_cache_health (cache w)") auto
  moreover obtain se where "check_search_health (search w) = Inr se"
    using assms(3) search_passed [of "search w"]
    by (cases "check_search_health (search w)") auto
  moreover obtain gr where "check_graph_health (graph w) = Inr gr"
    using assms(4) graph_passed [of "graph w"]
    by (cases "check_graph_health (graph w)") auto
  ultimately show ?thesis
    by (simp add: run_health_checks_returns)
qed

lemma example_database_interrupted_try:
  "check_database_health_try example_database_interrupted = Inl (Raised KeyboardInterrupt [])"
  by (simp add: check_database_health_try_def example_database_interrupted_def example_database_def)

lemma example_database_interrupted_result:
  "check_database_health example_database_interrupted = Inl (Raised KeyboardInterrupt [])"
  by (simp add: database_passed example_database_interrupted_try)

lemma run_health_checks_raises:
  "run_health_checks w s = Inl e \<longleftrightarrow>
     check_database_health (database w) = Inl e \<or>
     (\<exists>db. check_database_health (database w) = Inr db \<and>
        (check_cache_health (cache w) = Inl e \<or>
         (\<exists>ca. check_cache_health (cache w) = Inr ca \<and>
            (check_search_health (search w) = Inl e \<or>
             (\<exists>se. check_search_health (search w) = Inr se \<and>
                check_graph_health (graph w) = Inl e)))))"
  by (auto simp add: run_health_checks_def then_do_eq_Inl Let_def)

lemma getitem_update:
  "getitem (AList.update k v d) k' = (if k = k' then Inr v else getitem d k')"
  by (simp add: getitem_def update_conv')

lemma getitem_copy_response_ms:
  "name @ ''_response_ms'' \<noteq> k \<Longrightarrow> getitem (copy_response_ms hs name m) k = getitem m k"
  by (simp add: copy_response_ms_def getitem_update split: option.splits)

lemma copy_response_ms_empty [simp]: "copy_response_ms [] name m = m"
  by (simp add: copy_response_ms_def)

lemma example_database_try:
  "check_database_health_try example_database =
     Inr \<lparr>component = ''database'', status = ''healthy'', response_time_ms = 250,
          last_check = example_time, details = [(''paper_count'', PInt 42)]\<rparr>"
  by (simp add: check_database_health_try_def example_database_def)

lemma demo_paper_processing_result:
  "demo_paper_processing =
     Inr [(''total_papers'', PInt 2), (''processed'', PInt 2), (''failed'', PInt 0),
          (''success_rate'', PFloat 100)]"
  by (simp add: demo_paper_processing_def demo_papers_def truediv_def)

lemma demo_search_functionality_result:
  "\<exists>sample. demo_search_functionality =
     Inr [(''queries_processed'', PInt 4), (''total_results'', PInt 12),
          (''average_results_per_query'', PFloat 3), (''sample_results'', PDict sample)]"
  by (simp add: demo_search_functionality_def demo_queries_def mock_results_def truediv_def Let_def)

lemma system_report_overall_status:
  "getitem (system_report_of health system_metrics now) ''overall_status'' =
     Inr (PStr (overall_status_of (map (\<lambda>(k, r). status r) health)))"
  by (simp add: system_report_of_def Let_def)

lemma run_comprehensive_demo_returns:
  "run_comprehensive_demo w s = Inr (report, s') \<Longrightarrow>
     (\<exists>system_report overall_health sample.
        generate_system_report w s = Inr (system_report, s') \<and>
        getitem system_report ''overall_status'' = Inr overall_health \<and>
        demo_open w = Inr () \<and> demo_json_dump w = Inr () \<and>
        report =
          [(''demo_info'',
              PDict [(''start_time'', PStr (isoformat (demo_now_start w))),
                     (''duration_seconds'',
                        PFloat (seconds (demo_now_end w) - seconds (demo_now_start w))),
                     (''status'', PStr ''completed'')]),
           (''system_health'', PDict system_report),
           (''paper_processing'',
              PDict [(''total_papers'', PInt 2), (''processed'', PInt 2), (''failed'', PInt 0),
                     (''success_rate'', PFloat 100)]),
           (''search_functionality'',
              PDict [(''queries_processed'', PInt 4), (''total_results'', PInt 12),
                     (''average_results_per_query'', PFloat 3),
                     (''sample_results'', PDict sample)]),
           (''summary'',
              PDict [(''overall_health'', overall_health),
                     (''papers_processed'', PInt 2),
                     (''search_queries'', PInt 4),
                     (''demo_success'', PBool True)])])"
proof -
  obtain sample where search: "demo_search_functionality =
     Inr [(''queries_processed'', PInt 4), (''total_results'', PInt 12),
          (''average_results_per_query'', PFloat 3), (''sample_results'', PDict sample)]"
    using demo_search_functionality_result by blast
  assume "run_comprehensive_demo w s = Inr (report, s')"
  then show ?thesis
    by (auto simp add: run_comprehensive_demo_def Let_def demo_paper_processing_result
        search then_do_eq_Inr)
qed

lemma run_comprehensive_demo_total:
  assumes "generate_system_report w s = Inr (system_report, s1)"
    and "demo_open w = Inr ()" and "demo_json_dump w = Inr ()"
  shows "\<exists>report. run_comprehensive_demo w s = Inr (report, s1)"
proof -
  obtain sample where search: "demo_search_functionality =
     Inr [(''queries_processed'', PInt 4), (''total_results'', PInt 12),
          (''average_results_per_query'', PFloat 3), (''sample_results'', PDict sample)]"
    using demo_search_functionality_result by blast
  obtain overall_health where "getitem system_report ''overall_status'' = Inr overall_health"
    using assms(1)
    by (auto simp add: generate_system_report_returns system_report_overall_status)
  then show ?thesis
    by (simp add: run_comprehensive_demo_def Let_def assms demo_paper_processing_result search)
qed

lemma example_world_down_host:
  "host example_world_down = example_host"
  "demo_open example_world_down = Inr ()"
  "demo_json_dump example_world_down = Inr ()"
  by (simp_all add: example_world_down_def example_world_def)

lemma example_down_run_returns: "\<exists>hs s'. run_health_checks example_world_down s = Inr (hs, s')"
  by (rule run_health_checks_total)
    (simp_all add: example_world_down_fields example_database_down_try example_cache_down_try
      example_search_down_try example_graph_down_try)

lemma example_down_report_returns:
  "\<exists>report s'. generate_system_report example_world_down s = Inr (report, s')"
proof -
  obtain hs s1 where "run_health_checks example_world_down s = Inr (hs, s1)"
    using example_down_run_returns by blast
  moreover obtain m s2 where "collect_system_metrics example_host s1 = Inr (m, s2)"
    using example_metrics_returns by blast
  ultimately show ?thesis
    by (simp add: generate_system_report_returns example_world_down_host)
qed

lemma example_cache_exit_result:
  "check_cache_health example_cache_exit = Inl (Raised SystemExit [])"
  by (simp add: cache_passed check_cache_health_try_def example_cache_exit_def example_cache_def)

lemma example_search_interrupted_result:
  "check_search_health example_search_interrupted = Inl (Raised KeyboardInterrupt [])"
  by (simp add: search_passed check_search_health_try_def example_search_interrupted_def
      example_search_def)

lemma example_graph_interrupted_result:
  "check_graph_health example_graph_interrupted = Inl (Raised KeyboardInterrupt [])"
  by (simp add: graph_passed check_graph_health_try_def example_graph_interrupted_def
      example_graph_def)

lemmas example_results =
  example_world_fields example_database_result example_cache_result example_search_result
  example_graph_result

section \<open>The claims\<close>

text \<open>
  C1. For every list of statuses (in particular every list over healthy, degraded and
  unhealthy), the overall status is healthy when every status is healthy, degraded when
  at least one status is unhealthy, and healthy otherwise, the list of degraded statuses
  and the empty list included: it is healthy exactly when no status is unhealthy and
  degraded exactly when some status is unhealthy.
\<close>

theorem overall_status_rule:
  "((\<forall>s \<in> set statuses. s = ''healthy'') \<longrightarrow> overall_status_of statuses = ''healthy'') \<and>
   ((\<exists>s \<in> set statuses. s = ''unhealthy'') \<longrightarrow> overall_status_of statuses = ''degraded'') \<and>
   (\<not> (\<exists>s \<in> set statuses. s = ''unhealthy'') \<longrightarrow> overall_status_of statuses = ''healthy'') \<and>
   (overall_status_of statuses = ''healthy'' \<longleftrightarrow> ''unhealthy'' \<notin> set statuses) \<and>
   (overall_status_of statuses = ''degraded'' \<longleftrightarrow> ''unhealthy'' \<in> set statuses)"
proof -
  have all_healthy: "''unhealthy'' \<notin> set statuses"
    if "list_all (\<lambda>status. status = ''healthy'') statuses"
    using that by (auto simp add: list_all_iff)
  show ?thesis
    using all_healthy
    by (auto simp add: overall_status_of_def list_all_iff list_ex_iff)
qed

theorem overall_status_rule_witness:
  "overall_status_of [''healthy'', ''healthy'', ''healthy'', ''healthy''] = ''healthy'' \<and>
   overall_status_of [''healthy'', ''healthy'', ''unhealthy'', ''healthy''] = ''degraded'' \<and>
   overall_status_of [''degraded'', ''degraded'', ''degraded'', ''degraded''] = ''healthy'' \<and>
   overall_status_of [] = ''healthy''"
  using overall_status_rule [of "[''healthy'', ''healthy'', ''healthy'', ''healthy'']"]
        overall_status_rule [of "[''healthy'', ''healthy'', ''unhealthy'', ''healthy'']"]
        overall_status_rule [of "[''degraded'', ''degraded'', ''degraded'', ''degraded'']"]
        overall_status_rule [of "[]"]
  by simp

text \<open>
  C2. The summary of a report counts the results by status and in total. For every
  mapping of results given to the report builder, \<open>total\<close> is the number of entries and
  the three counts are the numbers of results with that status; when every result carries
  one of the three statuses the counts add up to \<open>total\<close>. The results that
  \<^verbatim>\<open>generate_system_report\<close> builds its report from always do: in every report it
  returns, \<open>total\<close> is the number of entries of \<open>health_checks\<close> and the three counts
  add up to it.
\<close>

theorem component_summary_invariant:
  "(\<exists>cs h d u t.
      getitem (system_report_of health system_metrics now) ''component_summary'' = Inr (PDict cs) \<and>
      getitem cs ''healthy'' = Inr (PInt h) \<and>
      getitem cs ''degraded'' = Inr (PInt d) \<and>
      getitem cs ''unhealthy'' = Inr (PInt u) \<and>
      getitem cs ''total'' = Inr (PInt t) \<and>
      h = int (length (filter (\<lambda>(k, r). status r = ''healthy'') health)) \<and>
      d = int (length (filter (\<lambda>(k, r). status r = ''degraded'') health)) \<and>
      u = int (length (filter (\<lambda>(k, r). status r = ''unhealthy'') health)) \<and>
      t = int (length health) \<and>
      ((\<forall>(k, r) \<in> set health.
          status r = ''healthy'' \<or> status r = ''degraded'' \<or> status r = ''unhealthy'')
        \<longrightarrow> h + d + u = t)) \<and>
   (generate_system_report w s = Inr (report, s') \<longrightarrow>
      (\<exists>results cs h d u t.
         getitem report ''health_checks'' = Inr (PDict results) \<and>
         getitem report ''component_summary'' = Inr (PDict cs) \<and>
         getitem cs ''healthy'' = Inr (PInt h) \<and>
         getitem cs ''degraded'' = Inr (PInt d) \<and>
         getitem cs ''unhealthy'' = Inr (PInt u) \<and>
         getitem cs ''total'' = Inr (PInt t) \<and>
         t = int (length results) \<and> h + d + u = t))"
proof (intro conjI impI)
  show "\<exists>cs h d u t.
      getitem (system_report_of health system_metrics now) ''component_summary'' = Inr (PDict cs) \<and>
      getitem cs ''healthy'' = Inr (PInt h) \<and>
      getitem cs ''degraded'' = Inr (PInt d) \<and>
      getitem cs ''unhealthy'' = Inr (PInt u) \<and>
      getitem cs ''total'' = Inr (PInt t) \<and>
      h = int (length (filter (\<lambda>(k, r). status r = ''healthy'') health)) \<and>
      d = int (length (filter (\<lambda>(k, r). status r = ''degraded'') health)) \<and>
      u = int (length (filter (\<lambda>(k, r). status r = ''unhealthy'') health)) \<and>
      t = int (length health) \<and>
      ((\<forall>(k, r) \<in> set health.
          status r = ''healthy'' \<or> status r = ''degraded'' \<or> status r = ''unhealthy'')
        \<longrightarrow> h + d + u = t)"
    using count_status_sum_results [of health]
    by (simp add: system_report_summary component_summary_fields count_status_of_results)
next
  assume "generate_system_report w s = Inr (report, s')"
  then obtain health' s1 metrics' where
    run: "run_health_checks w s = Inr (health', s1)" and
    report: "report = system_report_of health' metrics' (report_now w)"
    by (auto simp add: generate_system_report_returns)
  have "count_status ''healthy'' (map (\<lambda>(k, r). status r) health') +
     count_status ''degraded'' (map (\<lambda>(k, r). status r) health') +
     count_status ''unhealthy'' (map (\<lambda>(k, r). status r) health') = int (length health')"
    using run_health_checks_statuses [OF run] by (rule count_status_sum_results)
  then show "\<exists>results cs h d u t.
         getitem report ''health_checks'' = Inr (PDict results) \<and>
         getitem report ''component_summary'' = Inr (PDict cs) \<and>
         getitem cs ''healthy'' = Inr (PInt h) \<and>
         getitem cs ''degraded'' = Inr (PInt d) \<and>
         getitem cs ''unhealthy'' = Inr (PInt u) \<and>
         getitem cs ''total'' = Inr (PInt t) \<and>
         t = int (length results) \<and> h + d + u = t"
    by (simp add: report system_report_summary system_report_health_checks
        component_summary_fields)
qed

theorem component_summary_invariant_witness:
  "(\<exists>cs h d u t.
      getitem (system_report_of
                 [(''database'', \<lparr>component = ''database'', status = ''healthy'',
                     response_time_ms = 250, last_check = example_time, details = []\<rparr>),
                  (''cache'', \<lparr>component = ''cache'', status = ''unhealthy'',
                     response_time_ms = 500, last_check = example_time, details = []\<rparr>)]
                 [] example_time) ''component_summary'' = Inr (PDict cs) \<and>
      getitem cs ''healthy'' = Inr (PInt h) \<and>
      getitem cs ''degraded'' = Inr (PInt d) \<and>
      getitem cs ''unhealthy'' = Inr (PInt u) \<and>
      getitem cs ''total'' = Inr (PInt t) \<and>
      h = 1 \<and> d = 0 \<and> u = 1 \<and> t = 2 \<and> h + d + u = t) \<and>
   (\<exists>report s' results cs h d u t.
      generate_system_report example_world (init example_time) = Inr (report, s') \<and>
      getitem report ''health_checks'' = Inr (PDict results) \<and>
      getitem report ''component_summary'' = Inr (PDict cs) \<and>
      getitem cs ''healthy'' = Inr (PInt h) \<and>
      getitem cs ''degraded'' = Inr (PInt d) \<and>
      getitem cs ''unhealthy'' = Inr (PInt u) \<and>
      getitem cs ''total'' = Inr (PInt t) \<and>
      t = int (length results) \<and> h + d + u = t)"
proof (rule conjI)
  show "\<exists>cs h d u t.
      getitem (system_report_of
                 [(''database'', \<lparr>component = ''database'', status = ''healthy'',
                     response_time_ms = 250, last_check = example_time, details = []\<rparr>),
                  (''cache'', \<lparr>component = ''cache'', status = ''unhealthy'',
                     response_time_ms = 500, last_check = example_time, details = []\<rparr>)]
                 [] example_time) ''component_summary'' = Inr (PDict cs) \<and>
      getitem cs ''healthy'' = Inr (PInt h) \<and>
      getitem cs ''degraded'' = Inr (PInt d) \<and>
      getitem cs ''unhealthy'' = Inr (PInt u) \<and>
      getitem cs ''total'' = Inr (PInt t) \<and>
      h = 1 \<and> d = 0 \<and> u = 1 \<and> t = 2 \<and> h + d + u = t"
    using component_summary_invariant
      [of "[(''database'', \<lparr>component = ''database'', status = ''healthy'',
                     response_time_ms = 250, last_check = example_time, details = []\<rparr>),
            (''cache'', \<lparr>component = ''cache'', status = ''unhealthy'',
                     response_time_ms = 500, last_check = example_time, details = []\<rparr>)]"
          "[]" example_time, THEN conjunct1]
    by simp
next
  obtain report s' where
    r: "generate_system_report example_world (init example_time) = Inr (report, s')"
    using example_report_returns by blast
  show "\<exists>report s' results cs h d u t.
      generate_system_report example_world (init example_time) = Inr (report, s') \<and>
      getitem report ''health_checks'' = Inr (PDict results) \<and>
      getitem report ''component_summary'' = Inr (PDict cs) \<and>
      getitem cs ''healthy'' = Inr (PInt h) \<and>
      getitem cs ''degraded'' = Inr (PInt d) \<and>
      getitem cs ''unhealthy'' = Inr (PInt u) \<and>
      getitem cs ''total'' = Inr (PInt t) \<and>
      t = int (length results) \<and> h + d + u = t"
    using component_summary_invariant
      [of _ _ _ example_world "init example_time" report s', THEN conjunct2] r
    by blast
qed

text \<open>
  C3, as stated: whatever error a dependency call raises, the probe returns a result with
  status unhealthy and a non-empty \<open>details.error\<close>. The handler stores \<^verbatim>\<open>str(e)\<close>, and
  the text of an error can be empty: the database client raises an error without a
  message, and \<open>details.error\<close> is the empty string.
\<close>

theorem probe_errors_counterexample:
  "check_database_health_try example_database_silent = Inl (Raised DriverError []) \<and>
   is_Exception (Raised DriverError []) \<and>
   check_database_health example_database_silent =
     Inr \<lparr>component = ''database'', status = ''unhealthy'', response_time_ms = 500,
          last_check = example_time, details = [(''error'', PStr [])]\<rparr>"
  by (simp add: check_database_health_def check_database_health_try_def
      example_database_silent_def example_database_def try_except_caught)

text \<open>
  C3, amended. For each of the four probes and every error (an instance of
  \<^verbatim>\<open>Exception\<close>) raised inside its \<^verbatim>\<open>try\<close> block, the probe does not raise: it returns a
  result with status unhealthy whose \<open>details.error\<close> is the text \<^verbatim>\<open>str(e)\<close> of the error
  (non-empty whenever that text is). When every exception raised in the four
  \<^verbatim>\<open>try\<close> blocks is an instance of \<^verbatim>\<open>Exception\<close>, \<^verbatim>\<open>run_health_checks\<close> returns.
\<close>

theorem probe_errors_become_unhealthy:
  "(\<forall>e. check_database_health_try dw = Inl e \<and> is_Exception e \<longrightarrow>
      (\<exists>h. check_database_health dw = Inr h \<and> status h = ''unhealthy'' \<and>
           getitem (details h) ''error'' = Inr (PStr (str_exc e)))) \<and>
   (\<forall>e. check_cache_health_try cw = Inl e \<and> is_Exception e \<longrightarrow>
      (\<exists>h. check_cache_health cw = Inr h \<and> status h = ''unhealthy'' \<and>
           getitem (details h) ''error'' = Inr (PStr (str_exc e)))) \<and>
   (\<forall>e. check_search_health_try sw = Inl e \<and> is_Exception e \<longrightarrow>
      (\<exists>h. check_search_health sw = Inr h \<and> status h = ''unhealthy'' \<and>
           getitem (details h) ''error'' = Inr (PStr (str_exc e)))) \<and>
   (\<forall>e. check_graph_health_try gw = Inl e \<and> is_Exception e \<longrightarrow>
      (\<exists>h. check_graph_health gw = Inr h \<and> status h = ''unhealthy'' \<and>
           getitem (details h) ''error'' = Inr (PStr (str_exc e)))) \<and>
   ((\<forall>e. check_database_health_try (database w) = Inl e \<longrightarrow> is_Exception e) \<and>
    (\<forall>e. check_cache_health_try (cache w) = Inl e \<longrightarrow> is_Exception e) \<and>
    (\<forall>e. check_search_health_try (search w) = Inl e \<longrightarrow> is_Exception e) \<and>
    (\<forall>e. check_graph_health_try (graph w) = Inl e \<longrightarrow> is_Exception e) \<longrightarrow>
    (\<exists>hs s'. run_health_checks w s = Inr (hs, s')))"
proof (intro conjI allI impI)
  fix e assume "check_database_health_try dw = Inl e \<and> is_Exception e"
  then show "\<exists>h. check_database_health dw = Inr h \<and> status h = ''unhealthy'' \<and>
           getitem (details h) ''error'' = Inr (PStr (str_exc e))"
    by (simp add: database_caught)
next
  fix e assume "check_cache_health_try cw = Inl e \<and> is_Exception e"
  then show "\<exists>h. check_cache_health cw = Inr h \<and> status h = ''unhealthy'' \<and>
           getitem (details h) ''error'' = Inr (PStr (str_exc e))"
    by (simp add: cache_caught)
next
  fix e assume "check_search_health_try sw = Inl e \<and> is_Exception e"
  then show "\<exists>h. check_search_health sw = Inr h \<and> status h = ''unhealthy'' \<and>
           getitem (details h) ''error'' = Inr (PStr (str_exc e))"
    by (simp add: search_caught)
next
  fix e assume "check_graph_health_try gw = Inl e \<and> is_Exception e"
  then show "\<exists>h. check_graph_health gw = Inr h \<and> status h = ''unhealthy'' \<and>
           getitem (details h) ''error'' = Inr (PStr (str_exc e))"
    by (simp add: graph_caught)
next
  assume "(\<forall>e. check_database_health_try (database w) = Inl e \<longrightarrow> is_Exception e) \<and>
    (\<forall>e. check_cache_health_try (cache w) = Inl e \<longrightarrow> is_Exception e) \<and>
    (\<forall>e. check_search_health_try (search w) = Inl e \<longrightarrow> is_Exception e) \<and>
    (\<forall>e. check_graph_health_try (graph w) = Inl e \<longrightarrow> is_Exception e)"
  then show "\<exists>hs s'. run_health_checks w s = Inr (hs, s')"
    by (intro run_health_checks_total) simp_all
qed

theorem probe_errors_become_unhealthy_witness:
  "(\<exists>h. check_database_health example_database_down = Inr h \<and> status h = ''unhealthy'' \<and>
        getitem (details h) ''error'' = Inr (PStr ''connection refused'')) \<and>
   (\<exists>h. check_cache_health example_cache_down = Inr h \<and> status h = ''unhealthy'' \<and>
        getitem (details h) ''error'' = Inr (PStr ''Connection refused'')) \<and>
   (\<exists>h. check_search_health example_search_down = Inr h \<and> status h = ''unhealthy'' \<and>
        getitem (details h) ''error'' = Inr (PStr ''Connection timed out'')) \<and>
   (\<exists>h. check_graph_health example_graph_down = Inr h \<and> status h = ''unhealthy'' \<and>
        getitem (details h) ''error'' = Inr (PStr ''Unable to retrieve routing information'')) \<and>
   (\<exists>hs s'. run_health_checks example_world_down (init example_time) = Inr (hs, s'))"
  using probe_errors_become_unhealthy
    [of example_database_down example_cache_down example_search_down example_graph_down
        example_world_down "init example_time"]
  by (simp add: example_database_down_try example_cache_down_try example_search_down_try
      example_graph_down_try example_world_down_fields)

text \<open>
  C4, as stated: when a probe invocation raises past the probe's own handler, the registry
  still returns a result for that name and never raises. \<^verbatim>\<open>run_health_checks\<close> has no
  handler: a \<^verbatim>\<open>KeyboardInterrupt\<close> during the database connect leaves
  \<^verbatim>\<open>check_database_health\<close> and then \<^verbatim>\<open>run_health_checks\<close>, which returns no mapping.
\<close>

theorem registry_counterexample:
  "check_database_health (database example_world_interrupted) = Inl (Raised KeyboardInterrupt []) \<and>
   run_health_checks example_world_interrupted (init example_time) = Inl (Raised KeyboardInterrupt [])"
  by (simp add: run_health_checks_raises example_world_interrupted_def
      example_database_interrupted_result)

text \<open>
  C4, amended. \<^verbatim>\<open>run_health_checks\<close> has no handler of its own. When a probe invocation
  raises, \<^verbatim>\<open>run_health_checks\<close> raises the same exception, the probes after it are not
  run and no mapping is returned; it returns a mapping exactly when all four probe
  invocations return.
\<close>

theorem registry_propagates:
  "(check_database_health (database w) = Inl e \<longrightarrow> run_health_checks w s = Inl e) \<and>
   (check_database_health (database w) = Inr db \<and> check_cache_health (cache w) = Inl e \<longrightarrow>
      run_health_checks w s = Inl e) \<and>
   (check_database_health (database w) = Inr db \<and> check_cache_health (cache w) = Inr ca \<and>
    check_search_health (search w) = Inl e \<longrightarrow> run_health_checks w s = Inl e) \<and>
   (check_database_health (database w) = Inr db \<and> check_cache_health (cache w) = Inr ca \<and>
    check_search_health (search w) = Inr se \<and> check_graph_health (graph w) = Inl e \<longrightarrow>
      run_health_checks w s = Inl e) \<and>
   ((\<exists>hs s'. run_health_checks w s = Inr (hs, s')) \<longleftrightarrow>
      (\<exists>r1 r2 r3 r4.
         check_database_health (database w) = Inr r1 \<and> check_cache_health (cache w) = Inr r2 \<and>
         check_search_health (search w) = Inr r3 \<and> check_graph_health (graph w) = Inr r4))"
  by (auto simp add: run_health_checks_raises run_health_checks_returns)

theorem registry_propagates_witness:
  "run_health_checks example_world_interrupted (init example_time) =
     Inl (Raised KeyboardInterrupt []) \<and>
   run_health_checks (example_world\<lparr>cache := example_cache_exit\<rparr>) (init example_time) =
     Inl (Raised SystemExit []) \<and>
   run_health_checks (example_world\<lparr>search := example_search_interrupted\<rparr>) (init example_time) =
     Inl (Raised KeyboardInterrupt []) \<and>
   run_health_checks (example_world\<lparr>graph := example_graph_interrupted\<rparr>) (init example_time) =
     Inl (Raised KeyboardInterrupt []) \<and>
   (\<exists>hs s'. run_health_checks example_world (init example_time) = Inr (hs, s')) \<and>
   \<not> (\<exists>hs s'. run_health_checks example_world_interrupted (init example_time) = Inr (hs, s'))"
  using registry_propagates
      [of example_world_interrupted "Raised KeyboardInterrupt []" "init example_time"]
    registry_propagates
      [of "example_world\<lparr>cache := example_cache_exit\<rparr>" "Raised SystemExit []"
          "init example_time" "projr (check_database_health example_database)"]
    registry_propagates
      [of "example_world\<lparr>search := example_search_interrupted\<rparr>" "Raised KeyboardInterrupt []"
          "init example_time" "projr (check_database_health example_database)"
          "projr (check_cache_health example_cache)"]
    registry_propagates
      [of "example_world\<lparr>graph := example_graph_interrupted\<rparr>" "Raised KeyboardInterrupt []"
          "init example_time" "projr (check_database_health example_database)"
          "projr (check_cache_health example_cache)" "projr (check_search_health example_search)"]
    registry_propagates [of example_world _ "init example_time"]
  by (simp add: example_world_interrupted_def example_database_interrupted_result
      example_cache_exit_result example_search_interrupted_result
      example_graph_interrupted_result example_results)

text \<open>
  C5, as stated: the metrics mapping always has the keys \<open>timestamp\<close> and
  \<open>uptime_seconds\<close>, also when \<^verbatim>\<open>psutil\<close> is unavailable and the prior results are
  empty. When the import of \<^verbatim>\<open>psutil\<close> fails, \<^verbatim>\<open>collect_system_metrics\<close> returns the
  mapping with \<open>timestamp\<close> alone; \<open>uptime_seconds\<close> is not a key of it.
\<close>

theorem metrics_keys_counterexample:
  "collect_system_metrics example_host_no_psutil (init example_time) =
     Inr ([(''timestamp'', PStr ''2023-11-14T22:13:20'')], init example_time) \<and>
   getitem [(''timestamp'', PStr ''2023-11-14T22:13:20'')] ''uptime_seconds'' =
     Inl (Raised KeyError (quoted ''uptime_seconds''))"
  by (simp add: collect_system_metrics_def example_host_no_psutil_def example_host_def
      is_ImportError_def example_time_def)

text \<open>
  C5, amended. When the import of \<^verbatim>\<open>psutil\<close> fails with an \<^verbatim>\<open>ImportError\<close>,
  \<^verbatim>\<open>collect_system_metrics\<close> raises nothing and returns the mapping with the single key
  \<open>timestamp\<close>, leaving the state as it was. When \<^verbatim>\<open>psutil\<close> is available and its three
  samples return, the mapping has \<open>timestamp\<close>, \<open>uptime_seconds\<close> and the three
  gauges, and exactly these five keys when the prior results are empty. Every mapping
  \<^verbatim>\<open>collect_system_metrics\<close> returns has the key \<open>timestamp\<close>.
\<close>

theorem metrics_keys:
  "(\<forall>e. ps_import hw = Inl e \<and> is_ImportError e \<longrightarrow>
      collect_system_metrics hw s =
        Inr ([(''timestamp'', PStr (isoformat (ps_now_skipped hw)))], s)) \<and>
   (ps_import hw = Inr () \<and> ps_cpu_percent hw = Inr cpu \<and>
    ps_memory_percent hw = Inr mem \<and> ps_disk_percent hw = Inr disk \<longrightarrow>
      (\<exists>m s'. collect_system_metrics hw s = Inr (m, s') \<and>
         getitem m ''timestamp'' = Inr (PStr (isoformat (ps_now_timestamp hw))) \<and>
         getitem m ''uptime_seconds'' =
           Inr (PFloat (seconds (ps_now_uptime hw) - seconds (start_time s))) \<and>
         getitem m ''cpu_percent'' = Inr (PFloat cpu) \<and>
         getitem m ''memory_percent'' = Inr (PFloat mem) \<and>
         getitem m ''disk_percent'' = Inr (PFloat disk) \<and>
         (health_status s = [] \<longrightarrow>
            map fst m = [''timestamp'', ''uptime_seconds'', ''cpu_percent'',
                         ''memory_percent'', ''disk_percent'']))) \<and>
   (collect_system_metrics hw s = Inr (m, s') \<longrightarrow>
      (\<exists>t. getitem m ''timestamp'' = Inr (PStr t)))"
proof (intro conjI allI impI)
  fix e assume "ps_import hw = Inl e \<and> is_ImportError e"
  then show "collect_system_metrics hw s =
        Inr ([(''timestamp'', PStr (isoformat (ps_now_skipped hw)))], s)"
    by (simp add: collect_system_metrics_def)
next
  assume "ps_import hw = Inr () \<and> ps_cpu_percent hw = Inr cpu \<and>
    ps_memory_percent hw = Inr mem \<and> ps_disk_percent hw = Inr disk"
  then show "\<exists>m s'. collect_system_metrics hw s = Inr (m, s') \<and>
         getitem m ''timestamp'' = Inr (PStr (isoformat (ps_now_timestamp hw))) \<and>
         getitem m ''uptime_seconds'' =
           Inr (PFloat (seconds (ps_now_uptime hw) - seconds (start_time s))) \<and>
         getitem m ''cpu_percent'' = Inr (PFloat cpu) \<and>
         getitem m ''memory_percent'' = Inr (PFloat mem) \<and>
         getitem m ''disk_percent'' = Inr (PFloat disk) \<and>
         (health_status s = [] \<longrightarrow>
            map fst m = [''timestamp'', ''uptime_seconds'', ''cpu_percent'',
                         ''memory_percent'', ''disk_percent''])"
    by (simp add: collect_system_metrics_def Let_def getitem_copy_response_ms)
next
  assume r: "collect_system_metrics hw s = Inr (m, s')"
  show "\<exists>t. getitem m ''timestamp'' = Inr (PStr t)"
  proof (cases "ps_import hw")
    case (Inl e)
    with r show ?thesis
      by (auto simp add: collect_system_metrics_def split: if_splits)
  next
    case (Inr u)
    with r show ?thesis
      by (auto simp add: collect_system_metrics_def Let_def then_do_eq_Inr
          getitem_copy_response_ms)
  qed
qed

theorem metrics_keys_witness:
  "collect_system_metrics example_host_no_psutil (init example_time) =
     Inr ([(''timestamp'', PStr (isoformat example_time))], init example_time) \<and>
   (\<exists>m s'. collect_system_metrics example_host (init example_time) = Inr (m, s') \<and>
      getitem m ''timestamp'' = Inr (PStr (isoformat example_time)) \<and>
      getitem m ''uptime_seconds'' = Inr (PFloat 0) \<and>
      getitem m ''cpu_percent'' = Inr (PFloat 12.5) \<and>
      getitem m ''memory_percent'' = Inr (PFloat 40) \<and>
      getitem m ''disk_percent'' = Inr (PFloat 55) \<and>
      map fst m = [''timestamp'', ''uptime_seconds'', ''cpu_percent'',
                   ''memory_percent'', ''disk_percent''])"
  using metrics_keys [of example_host_no_psutil "init example_time", THEN conjunct1, rule_format,
          of "Raised ModuleNotFoundError (''No module named '' @ quoted ''psutil'')"]
        metrics_keys [of example_host "init example_time" "12.5" 40 55, THEN conjunct2, THEN conjunct1]
  by (simp add: example_host_no_psutil_def example_host_def is_ImportError_def init_def)

text \<open>
  C6. The search probe returns status healthy when the ping returns true and the cluster
  status is green or yellow, degraded when the ping returns true and the cluster status is
  anything else, and unhealthy (with the error \<open>ping_failed\<close>) when the ping returns false.
  When the import, the client, the ping or the cluster health call raises an error (an
  instance of \<^verbatim>\<open>Exception\<close>), or anything else in the \<^verbatim>\<open>try\<close> block does, the probe returns
  status unhealthy with the text of the error.
\<close>

theorem search_status_policy:
  "(se_import w = Inr () \<and> se_client w = Inr () \<and> se_ping w = Inr True \<and>
    se_cluster_health w = Inr cluster_health \<and> map_of cluster_health ''status'' = Some cluster_status \<longrightarrow>
      (\<exists>h. check_search_health w = Inr h \<and>
           status h = (if cluster_status = PStr ''green'' \<or> cluster_status = PStr ''yellow''
                       then ''healthy'' else ''degraded''))) \<and>
   (se_import w = Inr () \<and> se_client w = Inr () \<and> se_ping w = Inr False \<longrightarrow>
      (\<exists>h. check_search_health w = Inr h \<and> status h = ''unhealthy'' \<and>
           details h = [(''error'', PStr ''ping_failed'')])) \<and>
   (is_Exception e \<and>
    (se_import w = Inl e \<or>
     se_import w = Inr () \<and> se_client w = Inl e \<or>
     se_import w = Inr () \<and> se_client w = Inr () \<and> se_ping w = Inl e \<or>
     se_import w = Inr () \<and> se_client w = Inr () \<and> se_ping w = Inr True \<and>
       se_cluster_health w = Inl e) \<longrightarrow>
      (\<exists>h. check_search_health w = Inr h \<and> status h = ''unhealthy'' \<and>
           details h = [(''error'', PStr (str_exc e))])) \<and>
   (check_search_health_try w = Inl e \<and> is_Exception e \<longrightarrow>
      (\<exists>h. check_search_health w = Inr h \<and> status h = ''unhealthy'' \<and>
           details h = [(''error'', PStr (str_exc e))]))"
proof (intro conjI impI)
  assume "se_import w = Inr () \<and> se_client w = Inr () \<and> se_ping w = Inr True \<and>
    se_cluster_health w = Inr cluster_health \<and> map_of cluster_health ''status'' = Some cluster_status"
  then show "\<exists>h. check_search_health w = Inr h \<and>
           status h = (if cluster_status = PStr ''green'' \<or> cluster_status = PStr ''yellow''
                       then ''healthy'' else ''degraded'')"
    by (simp add: check_search_health_def check_search_health_try_def getitem_def)
next
  assume "se_import w = Inr () \<and> se_client w = Inr () \<and> se_ping w = Inr False"
  then show "\<exists>h. check_search_health w = Inr h \<and> status h = ''unhealthy'' \<and>
           details h = [(''error'', PStr ''ping_failed'')]"
    by (simp add: check_search_health_def check_search_health_try_def)
next
  assume a: "is_Exception e \<and>
    (se_import w = Inl e \<or>
     se_import w = Inr () \<and> se_client w = Inl e \<or>
     se_import w = Inr () \<and> se_client w = Inr () \<and> se_ping w = Inl e \<or>
     se_import w = Inr () \<and> se_client w = Inr () \<and> se_ping w = Inr True \<and>
       se_cluster_health w = Inl e)"
  then have "check_search_health_try w = Inl e"
    by (auto simp add: check_search_health_try_def)
  with a show "\<exists>h. check_search_health w = Inr h \<and> status h = ''unhealthy'' \<and>
           details h = [(''error'', PStr (str_exc e))]"
    by (simp add: search_caught)
next
  assume "check_search_health_try w = Inl e \<and> is_Exception e"
  then show "\<exists>h. check_search_health w = Inr h \<and> status h = ''unhealthy'' \<and>
           details h = [(''error'', PStr (str_exc e))]"
    by (simp add: search_caught)
qed

theorem search_status_policy_witness:
  "(\<exists>h. check_search_health example_search = Inr h \<and> status h = ''healthy'') \<and>
   (\<exists>h. check_search_health example_search_red = Inr h \<and> status h = ''degraded'') \<and>
   (\<exists>h. check_search_health example_search_no_ping = Inr h \<and> status h = ''unhealthy'' \<and>
        details h = [(''error'', PStr ''ping_failed'')]) \<and>
   (\<exists>h. check_search_health example_search_down = Inr h \<and> status h = ''unhealthy'' \<and>
        details h = [(''error'', PStr ''Connection timed out'')])"
  using search_status_policy
      [of example_search "[(''cluster_name'', PStr ''paperly''), (''status'', PStr ''green'')]"
          "PStr ''green''", THEN conjunct1]
    search_status_policy
      [of example_search_red "[(''cluster_name'', PStr ''paperly''), (''status'', PStr ''red'')]"
          "PStr ''red''", THEN conjunct1]
    search_status_policy [of example_search_no_ping, THEN conjunct2, THEN conjunct1]
    search_status_policy
      [of example_search_down _ _ "Raised DriverError ''Connection timed out''",
        THEN conjunct2, THEN conjunct2, THEN conjunct1]
    search_status_policy
      [of example_search_down _ _ "Raised DriverError ''Connection timed out''",
        THEN conjunct2, THEN conjunct2, THEN conjunct2]
  by (simp add: example_search_def example_search_red_def example_search_no_ping_def
      example_search_down_def example_search_down_try [unfolded example_search_down_def example_search_def])

text \<open>
  C7, as stated: the latency of every result is non-negative. The latency is the difference
  of two readings of \<^verbatim>\<open>time.time()\<close>, the wall clock, which can be set back between
  the two readings; the difference is then negative.
\<close>

theorem latency_counterexample:
  "(case check_database_health example_database_clock_back of
      Inl e \<Rightarrow> False
    | Inr h \<Rightarrow> status h = ''healthy'' \<and> response_time_ms h = - 1000 \<and> response_time_ms h < 0)"
  by (simp add: check_database_health_def check_database_health_try_def
      example_database_clock_back_def example_database_def)

text \<open>
  C7, amended. Every result of every probe carries a latency: on success it is 1000 times
  the difference between the reading taken after the last dependency call and the reading
  taken on entry, before the first one; on a caught error it is 1000 times the difference
  between the reading taken in the handler and the reading taken on entry (for the search
  probe with a failed ping, the reading taken in that branch). It is non-negative whenever
  no later reading is lower than the reading on entry.
\<close>

theorem latency_from_clock_readings:
  "(check_database_health_try dw = Inr h \<longrightarrow>
      check_database_health dw = Inr h \<and>
      response_time_ms h = (db_time_done dw - db_time_start dw) * 1000) \<and>
   (check_database_health_try dw = Inl e \<and> is_Exception e \<longrightarrow>
      (\<exists>r. check_database_health dw = Inr r \<and>
           response_time_ms r = (db_time_except dw - db_time_start dw) * 1000)) \<and>
   (check_database_health dw = Inr h \<and> db_time_start dw \<le> db_time_done dw \<and>
    db_time_start dw \<le> db_time_except dw \<longrightarrow> 0 \<le> response_time_ms h) \<and>
   (check_cache_health_try cw = Inr h \<longrightarrow>
      check_cache_health cw = Inr h \<and>
      response_time_ms h = (ca_time_done cw - ca_time_start cw) * 1000) \<and>
   (check_cache_health_try cw = Inl e \<and> is_Exception e \<longrightarrow>
      (\<exists>r. check_cache_health cw = Inr r \<and>
           response_time_ms r = (ca_time_except cw - ca_time_start cw) * 1000)) \<and>
   (check_cache_health cw = Inr h \<and> ca_time_start cw \<le> ca_time_done cw \<and>
    ca_time_start cw \<le> ca_time_except cw \<longrightarrow> 0 \<le> response_time_ms h) \<and>
   (check_search_health_try sw = Inr h \<longrightarrow>
      check_search_health sw = Inr h \<and>
      response_time_ms h =
        ((if se_ping sw = Inr True then se_time_done sw else se_time_noping sw)
           - se_time_start sw) * 1000) \<and>
   (check_search_health_try sw = Inl e \<and> is_Exception e \<longrightarrow>
      (\<exists>r. check_search_health sw = Inr r \<and>
           response_time_ms r = (se_time_except sw - se_time_start sw) * 1000)) \<and>
   (check_search_health sw = Inr h \<and> se_time_start sw \<le> se_time_done sw \<and>
    se_time_start sw \<le> se_time_noping sw \<and> se_time_start sw \<le> se_time_except sw \<longrightarrow>
      0 \<le> response_time_ms h) \<and>
   (check_graph_health_try gw = Inr h \<longrightarrow>
      check_graph_health gw = Inr h \<and>
      response_time_ms h = (gr_time_done gw - gr_time_start gw) * 1000) \<and>
   (check_graph_health_try gw = Inl e \<and> is_Exception e \<longrightarrow>
      (\<exists>r. check_graph_health gw = Inr r \<and>
           response_time_ms r = (gr_time_except gw - gr_time_start gw) * 1000)) \<and>
   (check_graph_health gw = Inr h \<and> gr_time_start gw \<le> gr_time_done gw \<and>
    gr_time_start gw \<le> gr_time_except gw \<longrightarrow> 0 \<le> response_time_ms h)"
proof -
  have db1: "check_database_health_try dw = Inr h \<longrightarrow>
      check_database_health dw = Inr h \<and>
      response_time_ms h = (db_time_done dw - db_time_start dw) * 1000"
    by (auto simp add: check_database_health_def dest: database_try_returns)
  have db2: "check_database_health_try dw = Inl e \<and> is_Exception e \<longrightarrow>
      (\<exists>r. check_database_health dw = Inr r \<and>
           response_time_ms r = (db_time_except dw - db_time_start dw) * 1000)"
    by (simp add: database_caught)
  have db3: "check_database_health dw = Inr h \<and> db_time_start dw \<le> db_time_done dw \<and>
    db_time_start dw \<le> db_time_except dw \<longrightarrow> 0 \<le> response_time_ms h"
    by (auto simp add: check_database_health_def try_except_returns dest: database_try_returns)
  have ca1: "check_cache_health_try cw = Inr h \<longrightarrow>
      check_cache_health cw = Inr h \<and>
      response_time_ms h = (ca_time_done cw - ca_time_start cw) * 1000"
    by (auto simp add: check_cache_health_def dest: cache_try_returns)
  have ca2: "check_cache_health_try cw = Inl e \<and> is_Exception e \<longrightarrow>
      (\<exists>r. check_cache_health cw = Inr r \<and>
           response_time_ms r = (ca_time_except cw - ca_time_start cw) * 1000)"
    by (simp add: cache_caught)
  have ca3: "check_cache_health cw = Inr h \<and> ca_time_start cw \<le> ca_time_done cw \<and>
    ca_time_start cw \<le> ca_time_except cw \<longrightarrow> 0 \<le> response_time_ms h"
    by (auto simp add: check_cache_health_def try_except_returns dest: cache_try_returns)
  have se1: "check_search_health_try sw = Inr h \<longrightarrow>
      check_search_health sw = Inr h \<and>
      response_time_ms h =
        ((if se_ping sw = Inr True then se_time_done sw else se_time_noping sw)
           - se_time_start sw) * 1000"
    by (auto simp add: check_search_health_def check_search_health_try_def then_do_eq_Inr
        split: if_splits)
  have se2: "check_search_health_try sw = Inl e \<and> is_Exception e \<longrightarrow>
      (\<exists>r. check_search_health sw = Inr r \<and>
           response_time_ms r = (se_time_except sw - se_time_start sw) * 1000)"
    by (simp add: search_caught)
  have se3: "check_search_health sw = Inr h \<and> se_time_start sw \<le> se_time_done sw \<and>
    se_time_start sw \<le> se_time_noping sw \<and> se_time_start sw \<le> se_time_except sw \<longrightarrow>
      0 \<le> response_time_ms h"
    by (auto simp add: check_search_health_def try_except_returns dest: search_try_returns)
  have gr1: "check_graph_health_try gw = Inr h \<longrightarrow>
      check_graph_health gw = Inr h \<and>
      response_time_ms h = (gr_time_done gw - gr_time_start gw) * 1000"
    by (auto simp add: check_graph_health_def dest: graph_try_returns)
  have gr2: "check_graph_health_try gw = Inl e \<and> is_Exception e \<longrightarrow>
      (\<exists>r. check_graph_health gw = Inr r \<and>
           response_time_ms r = (gr_time_except gw - gr_time_start gw) * 1000)"
    by (simp add: graph_caught)
  have gr3: "check_graph_health gw = Inr h \<and> gr_time_start gw \<le> gr_time_done gw \<and>
    gr_time_start gw \<le> gr_time_except gw \<longrightarrow> 0 \<le> response_time_ms h"
    by (auto simp add: check_graph_health_def try_except_returns dest: graph_try_returns)
  from db1 db2 db3 ca1 ca2 ca3 se1 se2 se3 gr1 gr2 gr3 show ?thesis
    by blast
qed

theorem latency_from_clock_readings_witness:
  "check_database_health example_database =
     Inr \<lparr>component = ''database'', status = ''healthy'', response_time_ms = 250,
          last_check = example_time, details = [(''paper_count'', PInt 42)]\<rparr> \<and>
   (0::real) \<le> 250 \<and>
   (\<exists>r. check_database_health example_database_down = Inr r \<and> response_time_ms r = 500)"
  using latency_from_clock_readings
      [of example_database
          "\<lparr>component = ''database'', status = ''healthy'', response_time_ms = 250,
            last_check = example_time, details = [(''paper_count'', PInt 42)]\<rparr>",
        THEN conjunct1]
    latency_from_clock_readings
      [of example_database
          "\<lparr>component = ''database'', status = ''healthy'', response_time_ms = 250,
            last_check = example_time, details = [(''paper_count'', PInt 42)]\<rparr>",
        THEN conjunct2, THEN conjunct2, THEN conjunct1]
    latency_from_clock_readings
      [of example_database_down _ "Raised DriverError ''connection refused''",
        THEN conjunct2, THEN conjunct1]
  by (simp add: example_database_try example_database_down_try)
    (simp add: example_database_down_def example_database_def)

text \<open>
  C8. \<^verbatim>\<open>run_health_checks\<close> runs the probes one after the other in the order database,
  cache, search, graph: when all four return, it returns the mapping of the four names to
  their results in that order, and stores it in the state; the keys of every mapping it
  returns are these four names, distinct, in that order; and the exception of an earlier
  probe leaves \<^verbatim>\<open>run_health_checks\<close> whatever the later probes would do.
\<close>

theorem registry_keys:
  "(check_database_health (database w) = Inr db \<and> check_cache_health (cache w) = Inr ca \<and>
    check_search_health (search w) = Inr se \<and> check_graph_health (graph w) = Inr gr \<longrightarrow>
      run_health_checks w s =
        Inr ([(''database'', db), (''cache'', ca), (''search'', se), (''graph'', gr)],
             s\<lparr>health_status :=
                  [(''database'', db), (''cache'', ca), (''search'', se), (''graph'', gr)]\<rparr>)) \<and>
   (run_health_checks w s = Inr (hs, s') \<longrightarrow>
      map fst hs = [''database'', ''cache'', ''search'', ''graph''] \<and>
      distinct (map fst hs) \<and> health_status s' = hs) \<and>
   (check_database_health (database w) = Inl e \<longrightarrow> run_health_checks w s = Inl e) \<and>
   (check_database_health (database w) = Inr db \<and> check_cache_health (cache w) = Inl e \<longrightarrow>
      run_health_checks w s = Inl e) \<and>
   (check_database_health (database w) = Inr db \<and> check_cache_health (cache w) = Inr ca \<and>
    check_search_health (search w) = Inl e \<longrightarrow> run_health_checks w s = Inl e)"
  by (auto simp add: run_health_checks_raises run_health_checks_returns)

theorem registry_keys_witness:
  "(\<exists>hs s'. run_health_checks example_world (init example_time) = Inr (hs, s') \<and>
      map fst hs = [''database'', ''cache'', ''search'', ''graph''] \<and>
      distinct (map fst hs) \<and> health_status s' = hs) \<and>
   run_health_checks (example_world_interrupted\<lparr>cache := example_cache_exit\<rparr>)
       (init example_time) = Inl (Raised KeyboardInterrupt []) \<and>
   run_health_checks (example_world\<lparr>cache := example_cache_exit,
       search := example_search_interrupted\<rparr>) (init example_time) = Inl (Raised SystemExit [])"
proof -
  obtain hs s' where r: "run_health_checks example_world (init example_time) = Inr (hs, s')"
    using example_run_returns by blast
  from registry_keys
      [of example_world _ _ _ _ "init example_time" hs s', THEN conjunct2, THEN conjunct1] r
  have first: "\<exists>hs s'. run_health_checks example_world (init example_time) = Inr (hs, s') \<and>
      map fst hs = [''database'', ''cache'', ''search'', ''graph''] \<and>
      distinct (map fst hs) \<and> health_status s' = hs"
    by auto
  have second: "run_health_checks (example_world_interrupted\<lparr>cache := example_cache_exit\<rparr>)
       (init example_time) = Inl (Raised KeyboardInterrupt [])"
    using registry_keys
      [of "example_world_interrupted\<lparr>cache := example_cache_exit\<rparr>" _ _ _ _
          "init example_time" _ _ "Raised KeyboardInterrupt []",
        THEN conjunct2, THEN conjunct2, THEN conjunct1]
    by (simp add: example_world_interrupted_def example_database_interrupted_result)
  have third: "run_health_checks (example_world\<lparr>cache := example_cache_exit,
       search := example_search_interrupted\<rparr>) (init example_time) = Inl (Raised SystemExit [])"
    using registry_keys
      [of "example_world\<lparr>cache := example_cache_exit, search := example_search_interrupted\<rparr>"
          "projr (check_database_health example_database)" _ _ _
          "init example_time" _ _ "Raised SystemExit []",
        THEN conjunct2, THEN conjunct2, THEN conjunct2, THEN conjunct1]
    by (simp add: example_results example_cache_exit_result)
  from first second third show ?thesis by blast
qed

text \<open>
  C9. \<^verbatim>\<open>demo_paper_processing\<close> reports two papers in total, two processed, none failed
  and a success rate of 100. In every report \<^verbatim>\<open>run_comprehensive_demo\<close> returns,
  \<open>summary.demo_success\<close> is true, \<open>demo_info.status\<close> is \<open>completed\<close> and
  \<open>paper_processing\<close> is that result, whatever the statuses of the components; and
  \<^verbatim>\<open>run_comprehensive_demo\<close> returns a report whenever \<^verbatim>\<open>generate_system_report\<close> returns
  and the report file is opened and written.
\<close>

theorem comprehensive_demo_report:
  "demo_paper_processing =
     Inr [(''total_papers'', PInt 2), (''processed'', PInt 2), (''failed'', PInt 0),
          (''success_rate'', PFloat 100)] \<and>
   (run_comprehensive_demo w s = Inr (report, s') \<longrightarrow>
      (\<exists>summary info.
         getitem report ''summary'' = Inr (PDict summary) \<and>
         getitem summary ''demo_success'' = Inr (PBool True) \<and>
         getitem report ''demo_info'' = Inr (PDict info) \<and>
         getitem info ''status'' = Inr (PStr ''completed'') \<and>
         getitem report ''paper_processing'' =
           Inr (PDict [(''total_papers'', PInt 2), (''processed'', PInt 2),
                       (''failed'', PInt 0), (''success_rate'', PFloat 100)]))) \<and>
   (generate_system_report w s = Inr (system_report, s1) \<and>
    demo_open w = Inr () \<and> demo_json_dump w = Inr () \<longrightarrow>
      (\<exists>report. run_comprehensive_demo w s = Inr (report, s1)))"
proof (intro conjI impI)
  show "demo_paper_processing =
     Inr [(''total_papers'', PInt 2), (''processed'', PInt 2), (''failed'', PInt 0),
          (''success_rate'', PFloat 100)]"
    by (rule demo_paper_processing_result)
next
  assume "run_comprehensive_demo w s = Inr (report, s')"
  then show "\<exists>summary info.
         getitem report ''summary'' = Inr (PDict summary) \<and>
         getitem summary ''demo_success'' = Inr (PBool True) \<and>
         getitem report ''demo_info'' = Inr (PDict info) \<and>
         getitem info ''status'' = Inr (PStr ''completed'') \<and>
         getitem report ''paper_processing'' =
           Inr (PDict [(''total_papers'', PInt 2), (''processed'', PInt 2),
                       (''failed'', PInt 0), (''success_rate'', PFloat 100)])"
    by (auto dest!: run_comprehensive_demo_returns)
next
  assume "generate_system_report w s = Inr (system_report, s1) \<and>
    demo_open w = Inr () \<and> demo_json_dump w = Inr ()"
  then show "\<exists>report. run_comprehensive_demo w s = Inr (report, s1)"
    by (simp add: run_comprehensive_demo_total)
qed

theorem comprehensive_demo_report_witness:
  "(\<exists>report s' summary info.
      run_comprehensive_demo example_world (init example_time) = Inr (report, s') \<and>
      getitem report ''summary'' = Inr (PDict summary) \<and>
      getitem summary ''demo_success'' = Inr (PBool True) \<and>
      getitem report ''demo_info'' = Inr (PDict info) \<and>
      getitem info ''status'' = Inr (PStr ''completed'') \<and>
      getitem report ''paper_processing'' =
        Inr (PDict [(''total_papers'', PInt 2), (''processed'', PInt 2),
                    (''failed'', PInt 0), (''success_rate'', PFloat 100)])) \<and>
   (\<exists>report s' summary info.
      run_comprehensive_demo example_world_down (init example_time) = Inr (report, s') \<and>
      getitem report ''summary'' = Inr (PDict summary) \<and>
      getitem summary ''demo_success'' = Inr (PBool True) \<and>
      getitem report ''demo_info'' = Inr (PDict info) \<and>
      getitem info ''status'' = Inr (PStr ''completed'') \<and>
      getitem report ''paper_processing'' =
        Inr (PDict [(''total_papers'', PInt 2), (''processed'', PInt 2),
                    (''failed'', PInt 0), (''success_rate'', PFloat 100)]))"
proof (rule conjI)
  obtain system_report s1 where
    g: "generate_system_report example_world (init example_time) = Inr (system_report, s1)"
    using example_report_returns by blast
  then obtain report where
    r: "run_comprehensive_demo example_world (init example_time) = Inr (report, s1)"
    using comprehensive_demo_report
      [of example_world "init example_time" _ _ system_report s1, THEN conjunct2, THEN conjunct2]
    by (auto simp add: example_world_fields)
  from comprehensive_demo_report
      [of example_world "init example_time" report s1, THEN conjunct2, THEN conjunct1] r
  show "\<exists>report s' summary info.
      run_comprehensive_demo example_world (init example_time) = Inr (report, s') \<and>
      getitem report ''summary'' = Inr (PDict summary) \<and>
      getitem summary ''demo_success'' = Inr (PBool True) \<and>
      getitem report ''demo_info'' = Inr (PDict info) \<and>
      getitem info ''status'' = Inr (PStr ''completed'') \<and>
      getitem report ''paper_processing'' =
        Inr (PDict [(''total_papers'', PInt 2), (''processed'', PInt 2),
                    (''failed'', PInt 0), (''success_rate'', PFloat 100)])"
    by blast
next
  obtain system_report s1 where
    g: "generate_system_report example_world_down (init example_time) = Inr (system_report, s1)"
    using example_down_report_returns by blast
  then obtain report where
    r: "run_comprehensive_demo example_world_down (init example_time) = Inr (report, s1)"
    using comprehensive_demo_report
      [of example_world_down "init example_time" _ _ system_report s1, THEN conjunct2, THEN conjunct2]
    by (auto simp add: example_world_down_host)
  from comprehensive_demo_report
      [of example_world_down "init example_time" report s1, THEN conjunct2, THEN conjunct1] r
  show "\<exists>report s' summary info.
      run_comprehensive_demo example_world_down (init example_time) = Inr (report, s') \<and>
      getitem report ''summary'' = Inr (PDict summary) \<and>
      getitem summary ''demo_success'' = Inr (PBool True) \<and>
      getitem report ''demo_info'' = Inr (PDict info) \<and>
      getitem info ''status'' = Inr (PStr ''completed'') \<and>
      getitem report ''paper_processing'' =
        Inr (PDict [(''total_papers'', PInt 2), (''processed'', PInt 2),
                    (''failed'', PInt 0), (''success_rate'', PFloat 100)])"
    by blast
qed

text \<open>
  C10. In every mapping \<^verbatim>\<open>run_health_checks\<close> returns, the result stored under a key has
  that key as its \<open>component\<close>; each probe names itself in every result it returns, from
  the success branch and from the handler alike.
\<close>

theorem result_component_is_key:
  "(run_health_checks w s = Inr (hs, s') \<longrightarrow> (\<forall>(k, h) \<in> set hs. component h = k)) \<and>
   (check_database_health dw = Inr h1 \<longrightarrow> component h1 = ''database'') \<and>
   (check_cache_health cw = Inr h2 \<longrightarrow> component h2 = ''cache'') \<and>
   (check_search_health sw = Inr h3 \<longrightarrow> component h3 = ''search'') \<and>
   (check_graph_health gw = Inr h4 \<longrightarrow> component h4 = ''graph'')"
  by (auto simp add: run_health_checks_returns
      dest: database_returns cache_returns search_returns graph_returns)

theorem result_component_is_key_witness:
  "(\<exists>hs s'. run_health_checks example_world (init example_time) = Inr (hs, s') \<and>
      map (\<lambda>(k, h). component h) hs = map fst hs) \<and>
   (\<exists>hs s'. run_health_checks example_world_down (init example_time) = Inr (hs, s') \<and>
      map (\<lambda>(k, h). component h) hs = map fst hs) \<and>
   component (projr (check_database_health example_database)) = ''database'' \<and>
   component (projr (check_database_health example_database_down)) = ''database''"
proof -
  have keys: "map (\<lambda>(k, h). component h) hs = map fst hs"
    if "\<forall>(k, h) \<in> set hs. component h = k" for hs :: "(string \<times> SystemHealth) list"
    using that by (induction hs) auto
  obtain hs s' where r: "run_health_checks example_world (init example_time) = Inr (hs, s')"
    using example_run_returns by blast
  obtain hs2 s2 where
    r2: "run_health_checks example_world_down (init example_time) = Inr (hs2, s2)"
    using example_down_run_returns by blast
  from result_component_is_key [of example_world "init example_time" hs s', THEN conjunct1] r
  have "map (\<lambda>(k, h). component h) hs = map fst hs"
    by (simp add: keys)
  moreover
  from result_component_is_key [of example_world_down "init example_time" hs2 s2, THEN conjunct1] r2
  have "map (\<lambda>(k, h). component h) hs2 = map fst hs2"
    by (simp add: keys)
  moreover
  have "component (projr (check_database_health example_database)) = ''database''"
    using result_component_is_key
      [of _ _ _ _ example_database "projr (check_database_health example_database)",
        THEN conjunct2, THEN conjunct1]
    by (simp add: example_database_result)
  moreover
  have "component (projr (check_database_health example_database_down)) = ''database''"
    using result_component_is_key
      [of _ _ _ _ example_database_down "projr (check_database_health example_database_down)",
        THEN conjunct2, THEN conjunct1]
    by (simp add: database_caught [OF example_database_down_try])
  ultimately show ?thesis
    using r r2 by blast
qed

end
